theory Spec2Isabelle
  imports Main "HOL-Library.Sublist" "HOL-Library.AList"
begin

text \<open>
  A model of the device-management server of Altrii Recovery (\<^verbatim>\<open>mdm/server.js\<close>, class
  \<^verbatim>\<open>AltriiMDMServer\<close>): the profile builder, the session registry, the command queue,
  the check-in and command handlers, the wake-up push and the enrollment codes. Each
  method of the class is a function of the same name on an explicit server state; what
  the generators of identifiers and the clock return is an argument of the function that
  calls them.
\<close>

section \<open>Values of the declarative documents\<close>

text \<open>
  The supervision profile is a JavaScript object that \<^verbatim>\<open>plist.build\<close> serialises.
  Objects are association lists in insertion order, arrays are lists.
\<close>

datatype pval =
    PUndef
  | PBool bool
  | PNum int
  | PStr string
  | PArr "pval list"
  | PObj "(string \<times> pval) list"

type_synonym obj = "(string \<times> pval) list"

text \<open>Property read \<^verbatim>\<open>o.k\<close>: a missing key reads as \<^verbatim>\<open>undefined\<close>.\<close>

definition getp :: "obj \<Rightarrow> string \<Rightarrow> pval" where
  "getp ob k = (case map_of ob k of None \<Rightarrow> PUndef | Some v \<Rightarrow> v)"

text \<open>\<^verbatim>\<open>Object.assign(target, source)\<close>: an existing key keeps its place and takes the new value.\<close>

definition Object_assign :: "obj \<Rightarrow> obj \<Rightarrow> obj" where
  "Object_assign target source = foldl (\<lambda>ob (k, v). AList.update k v ob) target source"

definition strs :: "string list \<Rightarrow> pval" where
  "strs xs = PArr (map PStr xs)"

text \<open>\<^verbatim>\<open>s.includes(p)\<close> on strings: \<open>p\<close> occurs in \<open>s\<close> as a contiguous substring.\<close>

fun str_includes :: "string \<Rightarrow> string \<Rightarrow> bool" where
  "str_includes [] p = (p = [])"
| "str_includes (c # cs) p = (take (length p) (c # cs) = p \<or> str_includes cs p)"

text \<open>\<^verbatim>\<open>[...new Set(xs)]\<close>: the first occurrence of every element, in order.\<close>

fun uniq :: "'a list \<Rightarrow> 'a list" where
  "uniq [] = []"
| "uniq (x # xs) = x # uniq (filter (\<lambda>y. y \<noteq> x) xs)"

section \<open>Inputs and configuration\<close>

text \<open>The blocking settings handed to the profile builder (the fields the builder reads).\<close>

record settings =
  block_adult_content :: bool
  block_gambling :: bool
  block_social_media :: bool
  block_gaming :: bool
  block_news :: bool
  block_entertainment :: bool
  block_shopping :: bool
  block_dating :: bool
  custom_blocked_domains :: "string list option"
  customAllowedDomains :: "string list option"
  additionalBlockedApps :: "string list option"
  allowJavaScript :: "bool option"

text \<open>
  The server configuration. The signing certificate and key are opaque values of the
  signing library; \<open>None\<close> is an unset (falsy) configuration entry.
\<close>

record config =
  serverUrl :: string
  mdmTopic :: "string option"
  production :: bool
  apiKey :: string
  signingCertificate :: "string option"
  signingKey :: "string option"

section \<open>The profile builder: pure payloads\<close>

definition buildMDMPayload :: "config \<Rightarrow> string \<Rightarrow> string \<Rightarrow> obj" where
  "buildMDMPayload cfg uuid deviceId =
    [(''PayloadType'', PStr ''com.apple.mdm''),
     (''PayloadIdentifier'', PStr (''com.altriirecovery.mdm.'' @ deviceId)),
     (''PayloadUUID'', PStr uuid),
     (''PayloadVersion'', PNum 1),
     (''PayloadDisplayName'', PStr ''Altrii Recovery MDM''),
     (''ServerURL'', PStr (serverUrl cfg @ ''/mdm/server/'' @ deviceId)),
     (''CheckInURL'', PStr (serverUrl cfg @ ''/mdm/checkin/'' @ deviceId)),
     (''Topic'', PStr (case mdmTopic cfg of None \<Rightarrow> ''com.altriirecovery.mdm'' | Some t \<Rightarrow>
        if t = [] then ''com.altriirecovery.mdm'' else t)),
     (''ServerCapabilities'', strs [''com.apple.mdm.per-app-vpn'',
        ''com.apple.mdm.device-lock'', ''com.apple.mdm.restriction-queries'']),
     (''AccessRights'', PNum 8191),
     (''CheckInFrequency'', PNum 15),
     (''UseDevelopmentAPNS'', PBool (\<not> production cfg))]"

definition getBaselinePermittedURLs :: "string list" where
  "getBaselinePermittedURLs =
    [''apple.com'', ''icloud.com'', ''icloud-content.com'', ''cdn-apple.com'', ''mzstatic.com'',
     ''altriirecovery.com'', ''www.altriirecovery.com'', ''app.altriirecovery.com'',
     ''api.altriirecovery.com'',
     ''emergency.gov'', ''911.gov'', ''suicidepreventionlifeline.org'', ''crisistextline.org'']"

definition baseRestrictions :: "string \<Rightarrow> string \<Rightarrow> obj" where
  "baseRestrictions uuid deviceId =
    [(''PayloadType'', PStr ''com.apple.applicationaccess''),
     (''PayloadIdentifier'', PStr (''com.altriirecovery.restrictions.'' @ deviceId)),
     (''PayloadUUID'', PStr uuid),
     (''PayloadVersion'', PNum 1),
     (''PayloadDisplayName'', PStr ''Altrii Recovery Restrictions'')]"

definition bypassApps :: "string list" where
  "bypassApps =
    [''com.opera.OperaMini'', ''com.opera.Opera-Touch'', ''org.torproject.ios'',
     ''com.tunnelbear.ios.TunnelBear'', ''com.nordvpn.ios'', ''com.expressvpn.ExpressVPN'',
     ''com.protonvpn.ios'', ''com.cloudflare.onedotonedotonedotone'']"

definition browserApps :: "string list" where
  "browserApps =
    [''com.brave.ios.browser'', ''com.mozilla.ios.Firefox'', ''com.mozilla.ios.Focus'',
     ''com.google.chrome.ios'', ''com.microsoft.msedge'', ''com.duckduckgo.mobile.ios'',
     ''com.alohabrowser.alohabrowser'']"

definition or_empty :: "'a list option \<Rightarrow> 'a list" where
  "or_empty v = (case v of None \<Rightarrow> [] | Some xs \<Rightarrow> xs)"

text \<open>
  The security level is a number; the branches are tested in the source's order
  (\<^verbatim>\<open>=== 2\<close>, then \<^verbatim>\<open>>= 3\<close>, then the bare base payload).
\<close>

definition buildRestrictionsPayload :: "string \<Rightarrow> string \<Rightarrow> settings \<Rightarrow> int \<Rightarrow> obj" where
  "buildRestrictionsPayload uuid deviceId st securityLevel =
    (if securityLevel = 2 then
       baseRestrictions uuid deviceId @
       [(''allowAppInstallation'', PBool True),
        (''allowUIAppInstallation'', PBool True),
        (''allowAppRemoval'', PBool False),
        (''allowInAppPurchases'', PBool False),
        (''allowVPNCreation'', PBool False),
        (''blacklistedAppBundleIDs'', strs (bypassApps @ or_empty (additionalBlockedApps st)))]
     else if securityLevel \<ge> 3 then
       baseRestrictions uuid deviceId @
       [(''allowAppInstallation'', PBool False),
        (''allowUIAppInstallation'', PBool False),
        (''allowAppClips'', PBool False),
        (''allowAutomaticAppDownloads'', PBool False),
        (''allowInAppPurchases'', PBool False),
        (''allowAppRemoval'', PBool False),
        (''allowEraseContentAndSettings'', PBool False),
        (''allowUIConfigurationProfileInstallation'', PBool False),
        (''allowVPNCreation'', PBool False),
        (''allowPasscodeModification'', PBool False),
        (''safariAllowJavaScript'', PBool (allowJavaScript st \<noteq> Some False)),
        (''safariAllowPopups'', PBool False),
        (''safariAllowAutoFill'', PBool False),
        (''safariForceFraudWarning'', PBool True),
        (''blacklistedAppBundleIDs'',
           strs (bypassApps @ browserApps @ or_empty (additionalBlockedApps st)))]
     else baseRestrictions uuid deviceId)"

definition buildSecurityPayload :: "string \<Rightarrow> string \<Rightarrow> int \<Rightarrow> obj" where
  "buildSecurityPayload uuid deviceId securityLevel =
    (let payload =
       [(''PayloadType'', PStr ''com.apple.security''),
        (''PayloadIdentifier'', PStr (''com.altriirecovery.security.'' @ deviceId)),
        (''PayloadUUID'', PStr uuid),
        (''PayloadVersion'', PNum 1),
        (''PayloadDisplayName'', PStr ''Altrii Recovery Security'')];
      payload = (if securityLevel \<ge> 2 then Object_assign payload
        [(''requireAlphanumeric'', PBool True),
         (''minLength'', PNum 6),
         (''maxFailedAttempts'', PNum 10),
         (''maxInactivity'', PNum 300),
         (''maxPINAgeInDays'', PNum 90),
         (''allowSimple'', PBool False),
         (''forcePIN'', PBool True)] else payload);
      payload = (if securityLevel \<ge> 3 then Object_assign payload
        [(''requireComplexPasscode'', PBool True),
         (''minComplexChars'', PNum 2),
         (''maxFailedAttempts'', PNum 5),
         (''allowPasscodeModification'', PBool False),
         (''allowFingerprintForUnlock'', PBool True),
         (''allowAutoUnlock'', PBool False)] else payload)
     in payload)"


section \<open>Protocol data\<close>

type_synonym time = nat

text \<open>
  A decoded check-in message (\<^verbatim>\<open>plist.parse(req.body)\<close>). Fields the device may leave
  out are options; tokens are byte buffers.
\<close>

record checkin =
  MessageType :: string
  UDID :: "string option"
  SerialNumber :: "string option"
  Model :: "string option"
  OSVersion :: "string option"
  BuildVersion :: "string option"
  IsSupervised :: "bool option"
  Token :: "string option"
  PushMagic :: "string option"
  UnlockToken :: "string option"
  Reason :: "string option"

text \<open>An entry of \<^verbatim>\<open>this.deviceSessions\<close>; \<open>s_deviceId\<close> is the id of the device record.\<close>

record session =
  s_deviceId :: int
  s_udid :: "string option"
  s_serialNumber :: "string option"
  s_model :: "string option"
  s_osVersion :: "string option"
  s_buildVersion :: "string option"
  s_lastCheckIn :: time
  s_supervised :: bool
  s_pushToken :: "string option"
  s_pushMagic :: "string option"
  s_unlockToken :: "string option"

text \<open>A command as \<^verbatim>\<open>buildCommand\<close> makes it: \<^verbatim>\<open>{CommandUUID, Command: {RequestType, ...}}\<close>.\<close>

record command =
  CommandUUID :: string
  Command :: obj

record profile_entry =
  PayloadIdentifier :: string

record security_info =
  si_IsSupervised :: "bool option"
  si_PasscodePresent :: "bool option"
  si_PasscodeCompliant :: "bool option"
  si_PasscodeCompliantWithProfiles :: "bool option"

record app_entry =
  BundleIdentifier :: string
  app_Name :: "string option"
  app_Version :: "string option"
  IsSystemApp :: "bool option"

record restrictions =
  allowVPNCreation :: "bool option"
  allowAppInstallation :: "bool option"
  allowEraseContentAndSettings :: "bool option"

text \<open>A decoded command response of the device; the typed parts are absent when not reported.\<close>

record commandResponse =
  rCommandUUID :: "string option"
  Status :: string
  RequestType :: "string option"
  ProfileList :: "profile_entry list option"
  SecurityInfo :: "security_info option"
  InstalledApplicationList :: "app_entry list option"
  Restrictions :: "restrictions option"

text \<open>An entry of \<^verbatim>\<open>this.enrollmentCodes\<close>.\<close>

record enrollment =
  profileData :: string
  e_deviceId :: string
  e_userId :: string
  e_profileUUID :: string
  expiresAt :: time

text \<open>A notification handed to \<^verbatim>\<open>apnProvider.send\<close> with the device token.\<close>

record notification =
  topic :: string
  pushType :: string
  priority :: nat
  mdm :: "string option"

section \<open>The record store\<close>

text \<open>
  The tables the server queries through its store handle \<^verbatim>\<open>db\<close>, each a list of rows
  with the columns the statements name. Timestamps written by \<^verbatim>\<open>NOW()\<close> take the clock reading of the handler. A JSON
  column holds the value that was serialised.
\<close>

record device_profiles_row =
  dp_id :: int
  dp_profile_uuid :: string
  dp_mdm_enrolled :: bool
  dp_supervision_level :: int

record mdm_device_sessions_row =
  ms_device_id :: int
  ms_udid :: "string option"
  ms_serial_number :: "string option"
  ms_model :: "string option"
  ms_os_version :: "string option"
  ms_build_version :: "string option"
  ms_supervised :: bool
  ms_push_token :: "string option"
  ms_push_magic :: "string option"
  ms_unlock_token :: "string option"
  ms_last_check_in :: "time option"
  ms_updated_at :: "time option"

record mdm_commands_row =
  mc_device_id :: int
  mc_command_uuid :: string
  mc_command_type :: string
  mc_command_data :: command
  mc_status :: string
  mc_created_at :: time
  mc_acknowledged_at :: "time option"
  mc_response_data :: "commandResponse option"

datatype event_data =
    Authenticated_data "bool option" "string option"
  | Unenrolled_data string
  | Command_response_data "string option" string commandResponse
  | Security_info_data bool bool "bool option" "bool option"
  | Prohibited_apps_data "(string \<times> string option) list"
  | Restriction_violations_data "string list"
  | Profile_downloaded_data string

datatype device_ref = RecordId int | ProfileUuid string

record mdm_device_events_row =
  ev_device_id :: device_ref
  ev_event_type :: string
  ev_event_data :: event_data

record supervision_profiles_row =
  sp_device_id :: int
  sp_profile_uuid :: string
  sp_profile_identifier :: string
  sp_display_name :: string
  sp_security_level :: int
  sp_profile_data :: string
  sp_installed :: bool
  sp_install_date :: "time option"

record supervision_enrollments_row =
  se_enrollment_code :: string
  se_device_id :: int
  se_user_id :: string
  se_status :: string
  se_enrolled_at :: "time option"

record device_app_inventory_row =
  ai_device_id :: int
  ai_bundle_identifier :: string
  ai_app_name :: string
  ai_version :: "string option"
  ai_is_system_app :: bool
  ai_is_blocked :: bool
  ai_last_seen_at :: "time option"

record device_restrictions_row =
  dr_device_id :: int
  dr_restriction_set :: "restrictions option"
  dr_verified_at :: time
  dr_active :: bool

record tables =
  device_profiles :: "device_profiles_row list"
  mdm_device_sessions :: "mdm_device_sessions_row list"
  mdm_commands :: "mdm_commands_row list"
  mdm_device_events :: "mdm_device_events_row list"
  supervision_profiles :: "supervision_profiles_row list"
  supervision_enrollments :: "supervision_enrollments_row list"
  blocked_domains :: "(string \<times> string) list"
  blocked_apps :: "string list"
  device_app_inventory :: "device_app_inventory_row list"
  device_restrictions :: "device_restrictions_row list"

section \<open>The server state and its effects\<close>

text \<open>
  The three in-memory maps of the server object, the record store, and the trace of calls
  to the push provider. Any statement sent to the store may throw: \<open>db_throws s n\<close> says
  whether the \<open>n\<close>-th statement issued does, \<open>db_queries\<close> counts the statements issued.
\<close>

record server =
  cfg :: config
  apnProvider :: bool
  deviceSessions :: "string \<rightharpoonup> session"
  pendingCommands :: "string \<rightharpoonup> command list"
  enrollmentCodes :: "string \<rightharpoonup> enrollment"
  db :: tables
  db_throws :: "nat \<Rightarrow> bool"
  db_queries :: nat
  apn_sent :: "(notification \<times> string option) list"

datatype exn = QueryError | TypeError

type_synonym 'a io = "server \<Rightarrow> (exn + 'a) \<times> server"

definition ret :: "'a \<Rightarrow> 'a io" where
  "ret x s = (Inr x, s)"

definition throw :: "exn \<Rightarrow> 'a io" where
  "throw e s = (Inl e, s)"

definition andThen :: "'a io \<Rightarrow> ('a \<Rightarrow> 'b io) \<Rightarrow> 'b io" where
  "andThen m f s = (case m s of (Inl e, s1) \<Rightarrow> (Inl e, s1) | (Inr x, s1) \<Rightarrow> f x s1)"

definition try_catch :: "'a io \<Rightarrow> (exn \<Rightarrow> 'a io) \<Rightarrow> 'a io" where
  "try_catch m h s = (case m s of (Inl e, s1) \<Rightarrow> h e s1 | (Inr x, s1) \<Rightarrow> (Inr x, s1))"

definition modify :: "(server \<Rightarrow> server) \<Rightarrow> unit io" where
  "modify f s = (Inr (), f s)"

text \<open>\<^verbatim>\<open>await db.query(...)\<close>: the statement is a function on the tables that returns its rows.\<close>

definition query :: "(tables \<Rightarrow> 'r \<times> tables) \<Rightarrow> 'r io" where
  "query q s =
    (let n = db_queries s; s1 = s\<lparr>db_queries := Suc n\<rparr>
     in if db_throws s n then (Inl QueryError, s1)
        else (case q (db s) of (r, t) \<Rightarrow> (Inr r, s1\<lparr>db := t\<rparr>)))"


section \<open>Helper methods of the server\<close>

text \<open>\<^verbatim>\<open>logDeviceEvent\<close> catches the failure of its own insert.\<close>

definition logDeviceEvent :: "device_ref \<Rightarrow> string \<Rightarrow> event_data \<Rightarrow> unit io" where
  "logDeviceEvent deviceId eventType dat =
    try_catch
      (query (\<lambda>t. ((), t\<lparr>mdm_device_events := mdm_device_events t @
         [\<lparr>ev_device_id = deviceId, ev_event_type = eventType, ev_event_data = dat\<rparr>]\<rparr>)))
      (\<lambda>e. ret ())"

definition select_device :: "string \<Rightarrow> tables \<Rightarrow> device_profiles_row list \<times> tables" where
  "select_device deviceId t = (filter (\<lambda>r. dp_profile_uuid r = deviceId) (device_profiles t), t)"

definition select_pending :: "int \<Rightarrow> tables \<Rightarrow> command list \<times> tables" where
  "select_pending did t =
    (map mc_command_data (sort_key mc_created_at
       (filter (\<lambda>r. mc_device_id r = did \<and> mc_status r = ''pending'') (mdm_commands t))), t)"

definition getPendingCommands :: "string \<Rightarrow> command list io" where
  "getPendingCommands deviceId s =
    (let memoryCommands = or_empty (pendingCommands s deviceId)
     in if length memoryCommands > 0 then ret memoryCommands s
        else andThen (query (select_device deviceId)) (\<lambda>device.
          case device of [] \<Rightarrow> ret []
          | d # _ \<Rightarrow> query (select_pending (dp_id d))) s)"

definition getNextCommand :: "string \<Rightarrow> command option io" where
  "getNextCommand deviceId =
    andThen (getPendingCommands deviceId) (\<lambda>commands.
      ret (case commands of [] \<Rightarrow> None | c # _ \<Rightarrow> Some c))"

definition topic_of :: "config \<Rightarrow> string" where
  "topic_of c = (case mdmTopic c of None \<Rightarrow> ''com.altriirecovery.mdm''
     | Some t \<Rightarrow> if t = [] then ''com.altriirecovery.mdm'' else t)"

text \<open>
  \<^verbatim>\<open>sendPushNotification\<close>: without a provider nothing is sent; otherwise the provider is
  called once, and a failed or throwing delivery is only logged.
\<close>

definition sendPushNotification :: "string \<Rightarrow> string option \<Rightarrow> string option \<Rightarrow> unit io" where
  "sendPushNotification deviceId pushToken pushMagic s =
    (if \<not> apnProvider s then ret () s
     else modify (\<lambda>s. s\<lparr>apn_sent := apn_sent s @
            [(\<lparr>topic = topic_of (cfg s), pushType = ''mdm'', priority = 5, mdm = pushMagic\<rparr>,
              pushToken)]\<rparr>) s)"

section \<open>The profile builder: content filter and composition\<close>

definition categories_of :: "settings \<Rightarrow> string list" where
  "categories_of st =
    (if block_adult_content st then [''adult''] else []) @
    (if block_gambling st then [''gambling''] else []) @
    (if block_social_media st then [''social_media''] else []) @
    (if block_gaming st then [''gaming''] else []) @
    (if block_news st then [''news''] else []) @
    (if block_entertainment st then [''entertainment''] else []) @
    (if block_shopping st then [''shopping''] else []) @
    (if block_dating st then [''dating''] else [])"

text \<open>A row of \<open>blocked_domains\<close> is (domain, category).\<close>

definition select_category_domains :: "string list \<Rightarrow> tables \<Rightarrow> string list \<times> tables" where
  "select_category_domains categories t =
    (map fst (filter (\<lambda>r. snd r \<in> set categories) (blocked_domains t)), t)"

definition compileBlockedDomains :: "settings \<Rightarrow> string list io" where
  "compileBlockedDomains st =
    (let categories = categories_of st
     in andThen (if length categories > 0 then query (select_category_domains categories)
                 else ret []) (\<lambda>categoryDomains.
        let domains = categoryDomains @
              (case custom_blocked_domains st of None \<Rightarrow> [] | Some ds \<Rightarrow> ds);
            uniqueDomains = filter (\<lambda>domain. \<not> str_includes domain ''altriirecovery.com'')
              (uniq domains)
        in ret uniqueDomains))"

definition buildContentFilterPayload :: "string \<Rightarrow> string \<Rightarrow> settings \<Rightarrow> bool \<Rightarrow> obj io" where
  "buildContentFilterPayload uuid deviceId st isWebOnly =
    andThen (compileBlockedDomains st) (\<lambda>blockedDomains. ret
      ([(''PayloadType'', PStr ''com.apple.webcontent-filter''),
        (''PayloadIdentifier'', PStr (''com.altriirecovery.contentfilter.'' @ deviceId)),
        (''PayloadUUID'', PStr uuid),
        (''PayloadVersion'', PNum 1),
        (''PayloadDisplayName'', PStr ''Altrii Recovery Content Filter''),
        (''FilterType'', PStr ''BuiltIn''),
        (''AutoFilterEnabled'', PBool True),
        (''FilterBrowsers'', PBool True),
        (''FilterSockets'', PBool True),
        (''BlacklistedURLs'', strs blockedDomains),
        (''WhitelistedURLs'', strs ([''altriirecovery.com'', ''www.altriirecovery.com'',
           ''app.altriirecovery.com'', ''api.altriirecovery.com'']
           @ or_empty (customAllowedDomains st)))] @
       (if isWebOnly then
          [(''FilterDataProviderBundleIdentifier'', PStr ''com.apple.Safari''),
           (''FilterPackets'', PBool True),
           (''FilterGrade'', PStr ''firewall'')] else []) @
       [(''PermittedURLs'', strs getBaselinePermittedURLs)]))"

text \<open>
  \<^verbatim>\<open>buildSupervisionProfile\<close>. \<open>gen k\<close> is the \<open>k\<close>-th identifier the UUID generator
  returns during the build.
\<close>

record options =
  o_deviceId :: string
  o_profileUUID :: string
  o_settings :: settings
  o_securityLevel :: int
  o_isWebOnly :: bool

definition buildSupervisionProfile :: "(nat \<Rightarrow> string) \<Rightarrow> options \<Rightarrow> obj io" where
  "buildSupervisionProfile gen opts s =
    (let deviceId = o_deviceId opts; securityLevel = o_securityLevel opts;
         head =
           [(''PayloadType'', PStr ''Configuration''),
            (''PayloadVersion'', PNum 1),
            (''PayloadIdentifier'', PStr (''com.altriirecovery.supervision.'' @ deviceId)),
            (''PayloadUUID'', PStr (o_profileUUID opts)),
            (''PayloadDisplayName'', PStr ''Altrii Recovery - Maximum Protection''),
            (''PayloadDescription'',
               PStr ''Device supervision for enhanced digital wellness protection''),
            (''PayloadOrganization'', PStr ''Altrii Recovery''),
            (''PayloadRemovalDisallowed'', PBool (securityLevel \<ge> 3))];
         content0 = [PObj (buildMDMPayload (cfg s) (gen 0) deviceId)]
     in andThen (buildContentFilterPayload (gen 1) deviceId (o_settings opts) (o_isWebOnly opts))
          (\<lambda>filter_payload.
            let content1 = content0 @ [PObj filter_payload];
                content2 = (if securityLevel \<ge> 2
                   then content1 @ [PObj (buildRestrictionsPayload (gen 2) deviceId
                                            (o_settings opts) securityLevel)]
                   else content1);
                content3 = (if securityLevel \<ge> 2
                   then content2 @ [PObj (buildSecurityPayload (gen 3) deviceId securityLevel)]
                   else content2)
            in ret (head @ [(''PayloadContent'', PArr content3)])) s)"

text \<open>
  The serialiser and the signer are libraries: \<open>plist_build\<close> is \<^verbatim>\<open>plist.build\<close>, and
  \<open>pkcs7_sign cert key data\<close> is the signed DER encoding, or \<open>None\<close> when signing throws.
\<close>

record libs =
  plist_build :: "obj \<Rightarrow> string"
  pkcs7_sign :: "string \<Rightarrow> string \<Rightarrow> string \<Rightarrow> string option"

definition signProfile :: "libs \<Rightarrow> config \<Rightarrow> obj \<Rightarrow> string" where
  "signProfile L c profile =
    (let plistData = plist_build L profile
     in case (signingCertificate c, signingKey c) of
          (Some cert, Some key) \<Rightarrow>
            (case pkcs7_sign L cert key plistData of
               Some der \<Rightarrow> der
             | None \<Rightarrow> plistData)
        | _ \<Rightarrow> plistData)"

text \<open>Reading the built document: the payloads of a type, and a payload's string array.\<close>

definition payloads_of :: "obj \<Rightarrow> pval list" where
  "payloads_of profile = (case getp profile ''PayloadContent'' of PArr ps \<Rightarrow> ps | _ \<Rightarrow> [])"

definition payloads_of_type :: "string \<Rightarrow> obj \<Rightarrow> obj list" where
  "payloads_of_type ty profile =
    concat (map (\<lambda>p. case p of PObj ob \<Rightarrow> (if getp ob ''PayloadType'' = PStr ty then [ob] else [])
                      | _ \<Rightarrow> []) (payloads_of profile))"

definition string_array :: "pval \<Rightarrow> string list" where
  "string_array v = (case v of PArr xs \<Rightarrow>
     concat (map (\<lambda>x. case x of PStr d \<Rightarrow> [d] | _ \<Rightarrow> []) xs) | _ \<Rightarrow> [])"

definition deny_list :: "obj \<Rightarrow> string list" where
  "deny_list profile = concat (map (\<lambda>ob. string_array (getp ob ''BlacklistedURLs''))
     (payloads_of_type ''com.apple.webcontent-filter'' profile))"


section \<open>Replies\<close>

text \<open>What a handler sends: status code, the headers it sets itself, and the body.\<close>

datatype body = NoBody | Json obj | PlistCommand command | Bytes string

datatype reply = Reply nat "(string \<times> string) list" body

text \<open>A handler body inside \<^verbatim>\<open>try\<close>, with the reply its \<^verbatim>\<open>catch\<close> sends.\<close>

definition respond :: "reply io \<Rightarrow> (exn \<Rightarrow> reply) \<Rightarrow> server \<Rightarrow> reply \<times> server" where
  "respond m h s = (case m s of (Inl e, s1) \<Rightarrow> (h e, s1) | (Inr r, s1) \<Rightarrow> (r, s1))"

section \<open>The check-in handler\<close>

definition select_session :: "int \<Rightarrow> tables \<Rightarrow> mdm_device_sessions_row list \<times> tables" where
  "select_session did t = (filter (\<lambda>r. ms_device_id r = did) (mdm_device_sessions t), t)"

definition update_session :: "checkin \<Rightarrow> time \<Rightarrow> int \<Rightarrow> tables \<Rightarrow> unit \<times> tables" where
  "update_session data now did t =
    ((), t\<lparr>mdm_device_sessions := map (\<lambda>r. if ms_device_id r = did
        then r\<lparr>ms_udid := UDID data, ms_serial_number := SerialNumber data,
               ms_model := Model data, ms_os_version := OSVersion data,
               ms_build_version := BuildVersion data,
               ms_supervised := (IsSupervised data = Some True),
               ms_last_check_in := Some now\<rparr>
        else r) (mdm_device_sessions t)\<rparr>)"

definition insert_session :: "checkin \<Rightarrow> int \<Rightarrow> tables \<Rightarrow> unit \<times> tables" where
  "insert_session data did t =
    ((), t\<lparr>mdm_device_sessions := mdm_device_sessions t @
       [\<lparr>ms_device_id = did, ms_udid = UDID data, ms_serial_number = SerialNumber data,
         ms_model = Model data, ms_os_version = OSVersion data,
         ms_build_version = BuildVersion data,
         ms_supervised = (IsSupervised data = Some True),
         ms_push_token = None, ms_push_magic = None, ms_unlock_token = None,
         ms_last_check_in = None, ms_updated_at = None\<rparr>]\<rparr>)"

definition handleAuthenticate :: "string \<Rightarrow> checkin \<Rightarrow> time \<Rightarrow> server \<Rightarrow> reply \<times> server" where
  "handleAuthenticate deviceId data now =
    respond
      (andThen (query (select_device deviceId)) (\<lambda>device.
         case device of
           [] \<Rightarrow> ret (Reply 401 [] NoBody)
         | deviceRecord # _ \<Rightarrow>
             andThen (query (select_session (dp_id deviceRecord))) (\<lambda>sessionExists.
             andThen (if length sessionExists > 0
                      then query (update_session data now (dp_id deviceRecord))
                      else query (insert_session data (dp_id deviceRecord))) (\<lambda>_.
             andThen (modify (\<lambda>s. s\<lparr>deviceSessions := (deviceSessions s)(deviceId \<mapsto>
                        \<lparr>s_deviceId = dp_id deviceRecord, s_udid = UDID data,
                          s_serialNumber = SerialNumber data, s_model = Model data,
                          s_osVersion = OSVersion data, s_buildVersion = BuildVersion data,
                          s_lastCheckIn = now,
                          s_supervised = (IsSupervised data = Some True),
                          s_pushToken = None, s_pushMagic = None,
                          s_unlockToken = None\<rparr>)\<rparr>)) (\<lambda>_.
             andThen (logDeviceEvent (RecordId (dp_id deviceRecord)) ''authenticated''
                        (Authenticated_data (IsSupervised data) (OSVersion data))) (\<lambda>_.
             ret (Reply 200 [] NoBody)))))))
      (\<lambda>error. Reply 500 [] NoBody)"

definition update_tokens :: "checkin \<Rightarrow> time \<Rightarrow> int \<Rightarrow> tables \<Rightarrow> unit \<times> tables" where
  "update_tokens data now did t =
    ((), t\<lparr>mdm_device_sessions := map (\<lambda>r. if ms_device_id r = did
        then r\<lparr>ms_push_token := Token data, ms_push_magic := PushMagic data,
               ms_unlock_token := UnlockToken data, ms_last_check_in := Some now\<rparr>
        else r) (mdm_device_sessions t)\<rparr>)"

text \<open>
  The session object is changed in place before the statement is sent; building the
  statement's arguments throws when the message carries no token.
\<close>

definition handleTokenUpdate :: "string \<Rightarrow> checkin \<Rightarrow> time \<Rightarrow> server \<Rightarrow> reply \<times> server" where
  "handleTokenUpdate deviceId data now s =
    (case deviceSessions s deviceId of
       None \<Rightarrow> (Reply 401 [] NoBody, s)
     | Some session0 \<Rightarrow>
         (let session = session0\<lparr>s_pushToken := Token data, s_pushMagic := PushMagic data,
                s_unlockToken := UnlockToken data\<rparr>
          in respond
            (andThen (modify (\<lambda>s. s\<lparr>deviceSessions :=
                        (deviceSessions s)(deviceId \<mapsto> session)\<rparr>)) (\<lambda>_.
             andThen (case Token data of
                        None \<Rightarrow> throw TypeError
                      | Some tok \<Rightarrow> query (update_tokens data now (s_deviceId session))) (\<lambda>_.
             andThen (getPendingCommands deviceId) (\<lambda>commands.
             andThen (if length commands > 0
                      then sendPushNotification deviceId (s_pushToken session)
                             (s_pushMagic session)
                      else ret ()) (\<lambda>_.
             ret (Reply 200 [] NoBody))))))
            (\<lambda>error. Reply 500 [] NoBody) s))"

definition unenroll_device :: "int \<Rightarrow> tables \<Rightarrow> unit \<times> tables" where
  "unenroll_device did t =
    ((), t\<lparr>device_profiles := map (\<lambda>r. if dp_id r = did
        then r\<lparr>dp_mdm_enrolled := False, dp_supervision_level := 0\<rparr> else r)
        (device_profiles t)\<rparr>)"

definition delete_session :: "int \<Rightarrow> tables \<Rightarrow> unit \<times> tables" where
  "delete_session did t =
    ((), t\<lparr>mdm_device_sessions := filter (\<lambda>r. ms_device_id r \<noteq> did) (mdm_device_sessions t)\<rparr>)"

definition handleCheckOut :: "string \<Rightarrow> checkin \<Rightarrow> server \<Rightarrow> reply \<times> server" where
  "handleCheckOut deviceId data s =
    (case deviceSessions s deviceId of
       None \<Rightarrow> (Reply 200 [] NoBody, s)
     | Some session \<Rightarrow>
         respond
           (andThen (modify (\<lambda>s. s\<lparr>deviceSessions := (deviceSessions s)(deviceId := None)\<rparr>)) (\<lambda>_.
            andThen (query (unenroll_device (s_deviceId session))) (\<lambda>_.
            andThen (query (delete_session (s_deviceId session))) (\<lambda>_.
            andThen (logDeviceEvent (RecordId (s_deviceId session)) ''unenrolled''
                       (Unenrolled_data (case Reason data of None \<Rightarrow> ''User initiated''
                          | Some r \<Rightarrow> if r = [] then ''User initiated'' else r))) (\<lambda>_.
            ret (Reply 200 [] NoBody))))))
           (\<lambda>error. Reply 500 [] NoBody) s)"

text \<open>\<open>None\<close> is a body that \<^verbatim>\<open>plist.parse\<close> rejects.\<close>

definition handleCheckIn :: "string \<Rightarrow> checkin option \<Rightarrow> time \<Rightarrow> server \<Rightarrow> reply \<times> server" where
  "handleCheckIn deviceId body now s =
    (case body of
       None \<Rightarrow> (Reply 500 [] NoBody, s)
     | Some checkInData \<Rightarrow>
         if MessageType checkInData = ''Authenticate''
           then handleAuthenticate deviceId checkInData now s
         else if MessageType checkInData = ''TokenUpdate''
           then handleTokenUpdate deviceId checkInData now s
         else if MessageType checkInData = ''CheckOut''
           then handleCheckOut deviceId checkInData s
         else (Reply 400 [] NoBody, s))"

section \<open>Reconciliation of device reports\<close>

definition mark_installed :: "int \<Rightarrow> string \<Rightarrow> time \<Rightarrow> tables \<Rightarrow> unit \<times> tables" where
  "mark_installed did ident now t =
    ((), t\<lparr>supervision_profiles := map (\<lambda>r.
        if sp_device_id r = did \<and> sp_profile_identifier r = ident
        then r\<lparr>sp_installed := True, sp_install_date := Some now\<rparr> else r)
        (supervision_profiles t)\<rparr>)"

definition set_enrolled :: "int \<Rightarrow> tables \<Rightarrow> unit \<times> tables" where
  "set_enrolled did t =
    ((), t\<lparr>device_profiles := map (\<lambda>r. if dp_id r = did
        then r\<lparr>dp_mdm_enrolled := True\<rparr> else r) (device_profiles t)\<rparr>)"

definition processProfileList :: "int \<Rightarrow> profile_entry list option \<Rightarrow> time \<Rightarrow> unit io" where
  "processProfileList deviceId profiles now =
    try_catch
      (case profiles of
         None \<Rightarrow> throw TypeError
       | Some ps \<Rightarrow>
           (case find (\<lambda>p. prefix ''com.altriirecovery.supervision'' (PayloadIdentifier p)) ps of
              None \<Rightarrow> ret ()
            | Some supervisionProfile \<Rightarrow>
                andThen (query (mark_installed deviceId
                           (PayloadIdentifier supervisionProfile) now)) (\<lambda>_.
                query (set_enrolled deviceId))))
      (\<lambda>error. ret ())"

definition update_supervised :: "bool \<Rightarrow> time \<Rightarrow> int \<Rightarrow> tables \<Rightarrow> unit \<times> tables" where
  "update_supervised supervised now did t =
    ((), t\<lparr>mdm_device_sessions := map (\<lambda>r. if ms_device_id r = did
        then r\<lparr>ms_supervised := supervised, ms_updated_at := Some now\<rparr> else r)
        (mdm_device_sessions t)\<rparr>)"

definition processSecurityInfo :: "int \<Rightarrow> security_info option \<Rightarrow> time \<Rightarrow> unit io" where
  "processSecurityInfo deviceId securityInfo now =
    try_catch
      (case securityInfo of
         None \<Rightarrow> throw TypeError
       | Some si \<Rightarrow>
           (let supervised = (si_IsSupervised si = Some True);
                passcodeSet = (si_PasscodePresent si = Some True)
            in andThen (query (update_supervised supervised now deviceId)) (\<lambda>_.
               logDeviceEvent (RecordId deviceId) ''security_info_updated''
                 (Security_info_data supervised passcodeSet (si_PasscodeCompliant si)
                    (si_PasscodeCompliantWithProfiles si)))))
      (\<lambda>error. ret ())"

definition delete_inventory :: "int \<Rightarrow> tables \<Rightarrow> unit \<times> tables" where
  "delete_inventory did t =
    ((), t\<lparr>device_app_inventory :=
       filter (\<lambda>r. ai_device_id r \<noteq> did) (device_app_inventory t)\<rparr>)"

definition select_blocked_apps :: "tables \<Rightarrow> string list \<times> tables" where
  "select_blocked_apps t = (blocked_apps t, t)"

definition app_name_of :: "app_entry \<Rightarrow> string" where
  "app_name_of a = (case app_Name a of None \<Rightarrow> BundleIdentifier a
     | Some n \<Rightarrow> if n = [] then BundleIdentifier a else n)"

text \<open>\<^verbatim>\<open>INSERT ... ON CONFLICT (device_id, bundle_identifier) DO UPDATE\<close>.\<close>

definition upsert_app :: "int \<Rightarrow> app_entry \<Rightarrow> bool \<Rightarrow> time \<Rightarrow> tables \<Rightarrow> unit \<times> tables" where
  "upsert_app did a isBlocked now t =
    (let same = (\<lambda>r. ai_device_id r = did \<and> ai_bundle_identifier r = BundleIdentifier a)
     in if list_ex same (device_app_inventory t)
        then ((), t\<lparr>device_app_inventory := map (\<lambda>r. if same r
               then r\<lparr>ai_app_name := app_name_of a, ai_version := app_Version a,
                      ai_last_seen_at := Some now\<rparr> else r) (device_app_inventory t)\<rparr>)
        else ((), t\<lparr>device_app_inventory := device_app_inventory t @
               [\<lparr>ai_device_id = did, ai_bundle_identifier = BundleIdentifier a,
                 ai_app_name = app_name_of a, ai_version = app_Version a,
                 ai_is_system_app = (IsSystemApp a = Some True), ai_is_blocked = isBlocked,
                 ai_last_seen_at = None\<rparr>]\<rparr>))"

fun insert_apps :: "int \<Rightarrow> string list \<Rightarrow> time \<Rightarrow> app_entry list \<Rightarrow> unit io" where
  "insert_apps deviceId blockedBundleIds now [] = ret ()"
| "insert_apps deviceId blockedBundleIds now (a # apps) =
    andThen (query (upsert_app deviceId a (BundleIdentifier a \<in> set blockedBundleIds) now))
      (\<lambda>_. insert_apps deviceId blockedBundleIds now apps)"

definition processAppList :: "int \<Rightarrow> app_entry list option \<Rightarrow> time \<Rightarrow> unit io" where
  "processAppList deviceId apps now =
    try_catch
      (andThen (query (delete_inventory deviceId)) (\<lambda>_.
       andThen (query select_blocked_apps) (\<lambda>blockedBundleIds.
       case apps of
         None \<Rightarrow> throw TypeError
       | Some as \<Rightarrow>
           andThen (insert_apps deviceId blockedBundleIds now as) (\<lambda>_.
           let prohibitedApps = filter (\<lambda>a. BundleIdentifier a \<in> set blockedBundleIds \<and>
                 \<not> (IsSystemApp a = Some True)) as
           in if length prohibitedApps > 0
              then logDeviceEvent (RecordId deviceId) ''prohibited_apps_detected''
                     (Prohibited_apps_data
                        (map (\<lambda>a. (BundleIdentifier a, app_Name a)) prohibitedApps))
              else ret ()))))
      (\<lambda>error. ret ())"

text \<open>\<^verbatim>\<open>INSERT ... ON CONFLICT (device_id) WHERE active = true DO UPDATE\<close>.\<close>

definition upsert_restrictions :: "int \<Rightarrow> restrictions option \<Rightarrow> time \<Rightarrow> tables \<Rightarrow> unit \<times> tables" where
  "upsert_restrictions did rs now t =
    (let same = (\<lambda>r. dr_device_id r = did \<and> dr_active r)
     in if list_ex same (device_restrictions t)
        then ((), t\<lparr>device_restrictions := map (\<lambda>r. if same r
               then r\<lparr>dr_restriction_set := rs, dr_verified_at := now\<rparr> else r)
               (device_restrictions t)\<rparr>)
        else ((), t\<lparr>device_restrictions := device_restrictions t @
               [\<lparr>dr_device_id = did, dr_restriction_set = rs, dr_verified_at = now,
                 dr_active = True\<rparr>]\<rparr>))"

definition select_level :: "int \<Rightarrow> tables \<Rightarrow> device_profiles_row list \<times> tables" where
  "select_level did t = (filter (\<lambda>r. dp_id r = did) (device_profiles t), t)"

definition restriction_issues :: "int \<Rightarrow> restrictions \<Rightarrow> string list" where
  "restriction_issues level rs =
    (if level \<ge> 2 \<and> allowVPNCreation rs \<noteq> Some False
       then [''VPN creation not blocked''] else []) @
    (if level \<ge> 3 \<and> allowAppInstallation rs \<noteq> Some False
       then [''App installation not blocked''] else []) @
    (if level \<ge> 3 \<and> allowEraseContentAndSettings rs \<noteq> Some False
       then [''Factory reset not blocked''] else [])"

definition processRestrictions :: "int \<Rightarrow> restrictions option \<Rightarrow> time \<Rightarrow> unit io" where
  "processRestrictions deviceId rs now =
    try_catch
      (andThen (query (upsert_restrictions deviceId rs now)) (\<lambda>_.
       andThen (query (select_level deviceId)) (\<lambda>device.
       case device of
         [] \<Rightarrow> ret ()
       | d # _ \<Rightarrow>
           (let level = dp_supervision_level d
            in andThen (if level \<ge> 2
                        then (case rs of None \<Rightarrow> throw TypeError
                              | Some r \<Rightarrow> ret (restriction_issues level r))
                        else ret []) (\<lambda>issues.
               if length issues > 0
               then logDeviceEvent (RecordId deviceId) ''restriction_violations''
                      (Restriction_violations_data issues)
               else ret ())))))
      (\<lambda>error. ret ())"

section \<open>The command exchange handler\<close>

definition update_command :: "commandResponse \<Rightarrow> time \<Rightarrow> tables \<Rightarrow> unit \<times> tables" where
  "update_command response now t =
    ((), t\<lparr>mdm_commands := map (\<lambda>r. if Some (mc_command_uuid r) = rCommandUUID response
        then r\<lparr>mc_status := (if Status response = ''Acknowledged'' then ''completed''
                               else ''failed''),
               mc_acknowledged_at := Some now, mc_response_data := Some response\<rparr>
        else r) (mdm_commands t)\<rparr>)"

text \<open>The \<^verbatim>\<open>switch\<close> on the request type of an acknowledged response.\<close>

definition reconcile :: "int \<Rightarrow> commandResponse \<Rightarrow> time \<Rightarrow> unit io" where
  "reconcile deviceId response now =
    (if RequestType response = Some ''ProfileList''
       then processProfileList deviceId (ProfileList response) now
     else if RequestType response = Some ''SecurityInfo''
       then processSecurityInfo deviceId (SecurityInfo response) now
     else if RequestType response = Some ''InstalledApplicationList''
       then processAppList deviceId (InstalledApplicationList response) now
     else if RequestType response = Some ''Restrictions''
       then processRestrictions deviceId (Restrictions response) now
     else ret ())"

text \<open>
  \<^verbatim>\<open>processCommandResponse\<close>: without a session entry it returns at once; otherwise the
  command record with the response's identifier is updated, the event logged, the report
  reconciled, and every command with that identifier removed from the device's queue.
\<close>

definition processCommandResponse :: "string \<Rightarrow> commandResponse \<Rightarrow> time \<Rightarrow> unit io" where
  "processCommandResponse deviceId response now s =
    (let commandUUID = rCommandUUID response
     in case deviceSessions s deviceId of
          None \<Rightarrow> ret () s
        | Some session \<Rightarrow>
            try_catch
              (andThen (query (update_command response now)) (\<lambda>_.
               andThen (logDeviceEvent (RecordId (s_deviceId session)) ''command_response''
                          (Command_response_data commandUUID (Status response) response)) (\<lambda>_.
               andThen (if Status response = ''Acknowledged''
                        then reconcile (s_deviceId session) response now
                        else ret ()) (\<lambda>_.
               modify (\<lambda>s. s\<lparr>pendingCommands := (pendingCommands s)(deviceId \<mapsto>
                 filter (\<lambda>cmd. Some (CommandUUID cmd) \<noteq> commandUUID)
                   (or_empty (pendingCommands s deviceId)))\<rparr>)))))
              (\<lambda>error. ret ()) s)"

definition handleCommand ::
  "string \<Rightarrow> commandResponse option \<Rightarrow> time \<Rightarrow> server \<Rightarrow> reply \<times> server" where
  "handleCommand deviceId body now =
    respond
      (case body of
         None \<Rightarrow> throw TypeError
       | Some commandResponse \<Rightarrow>
           andThen (processCommandResponse deviceId commandResponse now) (\<lambda>_.
           andThen (getNextCommand deviceId) (\<lambda>nextCommand.
           case nextCommand of
             Some c \<Rightarrow> ret (Reply 200 [(''Content-Type'', ''application/x-apple-aspen-mdm'')]
                         (PlistCommand c))
           | None \<Rightarrow> ret (Reply 200 [] NoBody))))
      (\<lambda>error. Reply 500 [] NoBody)"

section \<open>Enqueueing commands\<close>

text \<open>\<^verbatim>\<open>buildCommand\<close>; \<open>uuid\<close> is what the UUID generator returns for the command.\<close>

definition buildCommand :: "string \<Rightarrow> string \<Rightarrow> obj \<Rightarrow> command" where
  "buildCommand uuid ty parameters =
    (let base = [(''RequestType'', PStr ty)]
     in \<lparr>CommandUUID = uuid,
         Command =
           (if ty = ''ProfileList'' \<or> ty = ''SecurityInfo'' \<or> ty = ''DeviceInformation'' \<or>
               ty = ''Restrictions'' then base
            else if ty = ''InstallProfile''
              then AList.update ''Payload'' (getp parameters ''profileData'') base
            else if ty = ''RemoveProfile''
              then AList.update ''Identifier'' (getp parameters ''profileIdentifier'') base
            else if ty = ''Settings''
              then AList.update ''Settings'' (getp parameters ''settings'') base
            else if ty = ''DeviceLock''
              then AList.update ''Message'' (getp parameters ''message'')
                     (AList.update ''PIN'' (getp parameters ''pin'') base)
            else Object_assign base parameters)\<rparr>)"

definition insert_command :: "int \<Rightarrow> command \<Rightarrow> string \<Rightarrow> time \<Rightarrow> tables \<Rightarrow> unit \<times> tables" where
  "insert_command did c ty now t =
    ((), t\<lparr>mdm_commands := mdm_commands t @
       [\<lparr>mc_device_id = did, mc_command_uuid = CommandUUID c, mc_command_type = ty,
         mc_command_data = c, mc_status = ''pending'', mc_created_at = now,
         mc_acknowledged_at = None, mc_response_data = None\<rparr>]\<rparr>)"

text \<open>The wake-up both enqueueing operations end with: a session with a push token.\<close>

definition wake_device :: "string \<Rightarrow> unit io" where
  "wake_device deviceId s =
    (case deviceSessions s deviceId of
       None \<Rightarrow> ret () s
     | Some session \<Rightarrow>
         if s_pushToken session \<noteq> None
         then sendPushNotification deviceId (s_pushToken session) (s_pushMagic session) s
         else ret () s)"

definition sendCommand ::
  "string \<Rightarrow> string \<Rightarrow> obj option \<Rightarrow> string \<Rightarrow> time \<Rightarrow> server \<Rightarrow> reply \<times> server" where
  "sendCommand deviceId commandType parameters uuid now =
    respond
      (let command = buildCommand uuid commandType (or_empty parameters)
       in andThen (query (select_device deviceId)) (\<lambda>device.
          case device of
            [] \<Rightarrow> ret (Reply 404 [] (Json [(''error'', PStr ''Device not found'')]))
          | d # _ \<Rightarrow>
              andThen (query (insert_command (dp_id d) command commandType now)) (\<lambda>_.
              andThen (modify (\<lambda>s. s\<lparr>pendingCommands := (pendingCommands s)(deviceId \<mapsto>
                         or_empty (pendingCommands s deviceId) @ [command])\<rparr>)) (\<lambda>_.
              andThen (wake_device deviceId) (\<lambda>_.
              ret (Reply 200 [] (Json [(''commandUUID'', PStr (CommandUUID command)),
                                       (''status'', PStr ''pending'')])))))))
      (\<lambda>error. Reply 500 [] (Json [(''error'', PStr ''Failed to send command'')]))"

definition request_type :: "command \<Rightarrow> string" where
  "request_type c = (case getp (Command c) ''RequestType'' of PStr ty \<Rightarrow> ty | _ \<Rightarrow> [])"

fun insert_commands :: "int \<Rightarrow> time \<Rightarrow> command list \<Rightarrow> unit io" where
  "insert_commands did now [] = ret ()"
| "insert_commands did now (c # cs) =
    andThen (query (insert_command did c (request_type c) now))
      (\<lambda>_. insert_commands did now cs)"

text \<open>\<^verbatim>\<open>verifyDevice\<close>; \<open>gen k\<close> is the identifier generated for the \<open>k\<close>-th command.\<close>

definition verifyDevice :: "string \<Rightarrow> (nat \<Rightarrow> string) \<Rightarrow> time \<Rightarrow> server \<Rightarrow> reply \<times> server" where
  "verifyDevice deviceId gen now =
    respond
      (let commands = [buildCommand (gen 0) ''ProfileList'' [],
                       buildCommand (gen 1) ''SecurityInfo'' [],
                       buildCommand (gen 2) ''Restrictions'' [],
                       buildCommand (gen 3) ''InstalledApplicationList'' []]
       in andThen (query (select_device deviceId)) (\<lambda>device.
          case device of
            [] \<Rightarrow> ret (Reply 404 [] (Json [(''error'', PStr ''Device not found'')]))
          | d # _ \<Rightarrow>
              andThen (insert_commands (dp_id d) now commands) (\<lambda>_.
              andThen (modify (\<lambda>s. s\<lparr>pendingCommands := (pendingCommands s)(deviceId \<mapsto>
                         or_empty (pendingCommands s deviceId) @ commands)\<rparr>)) (\<lambda>_.
              andThen (wake_device deviceId) (\<lambda>_.
              ret (Reply 200 [] (Json [(''verificationInitiated'', PBool True),
                                       (''commandsSent'', PNum (int (length commands))),
                                       (''expectedResponseTime'', PStr ''30 seconds'')])))))))
      (\<lambda>error. Reply 500 [] (Json [(''error'', PStr ''Failed to verify device'')]))"

section \<open>The enrollment registrar\<close>

definition upsert_profile ::
  "int \<Rightarrow> string \<Rightarrow> string \<Rightarrow> int \<Rightarrow> string \<Rightarrow> tables \<Rightarrow> unit \<times> tables" where
  "upsert_profile did profileUUID ident securityLevel dat t =
    (let same = (\<lambda>r. sp_device_id r = did \<and> sp_profile_identifier r = ident)
     in if list_ex same (supervision_profiles t)
        then ((), t\<lparr>supervision_profiles := map (\<lambda>r. if same r
               then r\<lparr>sp_profile_uuid := profileUUID, sp_security_level := securityLevel,
                      sp_profile_data := dat\<rparr> else r) (supervision_profiles t)\<rparr>)
        else ((), t\<lparr>supervision_profiles := supervision_profiles t @
               [\<lparr>sp_device_id = did, sp_profile_uuid = profileUUID,
                 sp_profile_identifier = ident,
                 sp_display_name = ''Altrii Recovery - Maximum Protection'',
                 sp_security_level = securityLevel, sp_profile_data = dat,
                 sp_installed = False, sp_install_date = None\<rparr>]\<rparr>))"

definition day_ms :: nat where
  "day_ms = 24 * 60 * 60 * 1000"

text \<open>
  \<^verbatim>\<open>generateSupervisionProfile\<close>. The request body gives device, user, settings and
  level; \<open>profileUUID\<close> and \<open>enrollmentCode\<close> are what the two generators return, \<open>gen\<close>
  gives the payload identifiers. The profile is always built web-only
  (\<^verbatim>\<open>isWebOnly || true\<close>).
\<close>

definition generateSupervisionProfile ::
  "libs \<Rightarrow> string \<Rightarrow> string \<Rightarrow> settings \<Rightarrow> int \<Rightarrow> string \<Rightarrow> string \<Rightarrow> (nat \<Rightarrow> string) \<Rightarrow> time
     \<Rightarrow> server \<Rightarrow> reply \<times> server" where
  "generateSupervisionProfile L deviceId userId st securityLevel profileUUID enrollmentCode
      gen now =
    respond
      (andThen (query (select_device deviceId)) (\<lambda>device.
         case device of
           [] \<Rightarrow> ret (Reply 404 [] (Json [(''error'', PStr ''Device not found'')]))
         | d # _ \<Rightarrow>
             andThen (buildSupervisionProfile gen
                        \<lparr>o_deviceId = deviceId, o_profileUUID = profileUUID, o_settings = st,
                          o_securityLevel = securityLevel, o_isWebOnly = True\<rparr>) (\<lambda>profile.
             andThen (\<lambda>s. ret (signProfile L (cfg s) profile) s) (\<lambda>signedProfile.
             andThen (modify (\<lambda>s. s\<lparr>enrollmentCodes := (enrollmentCodes s)(enrollmentCode \<mapsto>
                        \<lparr>profileData = signedProfile, e_deviceId = deviceId,
                          e_userId = userId, e_profileUUID = profileUUID,
                          expiresAt = now + day_ms\<rparr>)\<rparr>)) (\<lambda>_.
             andThen (query (upsert_profile (dp_id d) profileUUID
                        (''com.altriirecovery.supervision.'' @ deviceId) securityLevel
                        signedProfile)) (\<lambda>_.
             ret (Reply 200 [] (Json [(''enrollmentCode'', PStr enrollmentCode),
                                      (''profileUUID'', PStr profileUUID),
                                      (''downloadUrl'', PStr (''/mdm/enroll/'' @ enrollmentCode)),
                                      (''expiresAt'', PNum (int (now + day_ms)))]))))))))
      (\<lambda>error. Reply 500 [] (Json [(''error'', PStr ''Failed to generate supervision profile'')]))"

definition mark_downloaded :: "string \<Rightarrow> tables \<Rightarrow> unit \<times> tables" where
  "mark_downloaded code t =
    ((), t\<lparr>supervision_enrollments := map (\<lambda>r. if se_enrollment_code r = code
        then r\<lparr>se_status := ''downloaded''\<rparr> else r) (supervision_enrollments t)\<rparr>)"

text \<open>
  \<^verbatim>\<open>getEnrollmentProfile\<close>. The profile is sent first; the audit event and the status
  update follow, and what they throw can no longer change the reply that was sent.
\<close>

definition getEnrollmentProfile :: "string \<Rightarrow> time \<Rightarrow> server \<Rightarrow> reply \<times> server" where
  "getEnrollmentProfile code now s =
    (case enrollmentCodes s code of
       None \<Rightarrow> (Reply 404 [] (Json [(''error'', PStr ''Invalid enrollment code'')]), s)
     | Some enrollment \<Rightarrow>
         if expiresAt enrollment < now
         then (Reply 410 [] (Json [(''error'', PStr ''Enrollment code expired'')]),
               s\<lparr>enrollmentCodes := (enrollmentCodes s)(code := None)\<rparr>)
         else (Reply 200
                 [(''Content-Type'', ''application/x-apple-aspen-config''),
                  (''Content-Disposition'',
                   ''attachment; filename='' @ [CHR 0x22] @
                     ''altrii-recovery-supervision.mobileconfig'' @ [CHR 0x22])]
                 (Bytes (profileData enrollment)),
               snd (andThen (logDeviceEvent (ProfileUuid (e_deviceId enrollment))
                               ''profile_downloaded'' (Profile_downloaded_data code))
                      (\<lambda>_. query (mark_downloaded code)) s)))"

definition mark_enrolled :: "int \<Rightarrow> string \<Rightarrow> time \<Rightarrow> tables \<Rightarrow> unit \<times> tables" where
  "mark_enrolled did userId now t =
    ((), t\<lparr>supervision_enrollments := map (\<lambda>r.
        if se_device_id r = did \<and> se_user_id r = userId \<and> se_status r = ''downloaded''
        then r\<lparr>se_status := ''enrolled'', se_enrolled_at := Some now\<rparr> else r)
        (supervision_enrollments t)\<rparr>)"

definition handleEnrollment :: "int \<Rightarrow> string \<Rightarrow> time \<Rightarrow> server \<Rightarrow> reply \<times> server" where
  "handleEnrollment deviceId userId now =
    respond
      (andThen (query (mark_enrolled deviceId userId now)) (\<lambda>_.
       andThen (query (set_enrolled deviceId)) (\<lambda>_.
       ret (Reply 200 [] (Json [(''success'', PBool True)])))))
      (\<lambda>error. Reply 500 [] (Json [(''error'', PStr ''Failed to complete enrollment'')]))"

section \<open>Device status, shutdown and routing\<close>

text \<open>
  The status statement: the device records of the profile identifier, left-joined with
  their session rows and with their installed supervision profiles.
\<close>

type_synonym status_row =
  "device_profiles_row \<times> mdm_device_sessions_row option \<times> supervision_profiles_row option"

definition left_join :: "'a list \<Rightarrow> 'a option list" where
  "left_join rows = (if rows = [] then [None] else map Some rows)"

definition select_status :: "string \<Rightarrow> tables \<Rightarrow> status_row list \<times> tables" where
  "select_status deviceId t =
    (concat (map (\<lambda>dp.
       concat (map (\<lambda>mds. map (\<lambda>sp. (dp, mds, sp))
           (left_join (filter (\<lambda>r. sp_device_id r = dp_id dp \<and> sp_installed r)
              (supervision_profiles t))))
         (left_join (filter (\<lambda>r. ms_device_id r = dp_id dp) (mdm_device_sessions t)))))
       (filter (\<lambda>r. dp_profile_uuid r = deviceId) (device_profiles t))), t)"

definition opt_str :: "string option \<Rightarrow> pval" where
  "opt_str v = (case v of None \<Rightarrow> PUndef | Some x \<Rightarrow> PStr x)"

definition opt_time :: "time option \<Rightarrow> pval" where
  "opt_time v = (case v of None \<Rightarrow> PUndef | Some x \<Rightarrow> PNum (int x))"

definition getDeviceStatus :: "string \<Rightarrow> server \<Rightarrow> reply \<times> server" where
  "getDeviceStatus deviceId s =
    (let session = deviceSessions s deviceId;
         pending = or_empty (pendingCommands s deviceId)
     in respond
       (andThen (query (select_status deviceId)) (\<lambda>device.
          case device of
            [] \<Rightarrow> ret (Reply 404 [] (Json [(''error'', PStr ''Device not found'')]))
          | (dp, mds, sp) # _ \<Rightarrow>
              ret (Reply 200 [] (Json
                [(''deviceId'', PStr deviceId),
                 (''online'', PBool (session \<noteq> None)),
                 (''lastCheckIn'', (case session of
                     Some se \<Rightarrow> PNum (int (s_lastCheckIn se))
                   | None \<Rightarrow> opt_time (case mds of None \<Rightarrow> None
                               | Some m \<Rightarrow> ms_last_check_in m))),
                 (''supervised'', PBool ((case session of Some se \<Rightarrow> s_supervised se
                     | None \<Rightarrow> False) \<or> (case mds of Some m \<Rightarrow> ms_supervised m
                     | None \<Rightarrow> False))),
                 (''pendingCommands'', PNum (int (length pending))),
                 (''profileInstalled'', PBool (sp \<noteq> None)),
                 (''securityLevel'', PNum (case sp of None \<Rightarrow> 0
                     | Some p \<Rightarrow> sp_security_level p)),
                 (''deviceInfo'', (case session of
                     Some se \<Rightarrow> PObj [(''model'', opt_str (s_model se)),
                                     (''osVersion'', opt_str (s_osVersion se)),
                                     (''serialNumber'', opt_str (s_serialNumber se))]
                   | None \<Rightarrow> PObj [(''model'', opt_str (case mds of None \<Rightarrow> None
                                        | Some m \<Rightarrow> ms_model m)),
                                    (''osVersion'', opt_str (case mds of None \<Rightarrow> None
                                        | Some m \<Rightarrow> ms_os_version m))]))]))))
       (\<lambda>error. Reply 500 [] (Json [(''error'', PStr ''Failed to get device status'')])) s)"

text \<open>\<^verbatim>\<open>shutdown\<close> clears the three in-memory maps; the record store stays.\<close>

definition shutdown :: "server \<Rightarrow> server" where
  "shutdown s = s\<lparr>deviceSessions := Map.empty, pendingCommands := Map.empty,
     enrollmentCodes := Map.empty\<rparr>"

text \<open>
  The routes with a handler method. A request carries what the handler reads from path
  and body, together with the values the generators return while it runs.
\<close>

datatype request =
    PutCheckIn string "checkin option"
  | PutServer string "commandResponse option"
  | PostEnroll int string
  | GetEnroll string
  | PostProfilesGenerate string string settings int string string "nat \<Rightarrow> string"
  | GetDeviceStatus string
  | PostDeviceCommand string string "obj option" string
  | PostDeviceVerify string "nat \<Rightarrow> string"

definition protocol_endpoint :: "request \<Rightarrow> bool" where
  "protocol_endpoint req = (case req of PutCheckIn d b \<Rightarrow> True | PutServer d b \<Rightarrow> True
     | _ \<Rightarrow> False)"

definition dispatch :: "libs \<Rightarrow> time \<Rightarrow> request \<Rightarrow> server \<Rightarrow> reply \<times> server" where
  "dispatch L now req =
    (case req of
       PutCheckIn deviceId body \<Rightarrow> handleCheckIn deviceId body now
     | PutServer deviceId body \<Rightarrow> handleCommand deviceId body now
     | PostEnroll deviceId userId \<Rightarrow> handleEnrollment deviceId userId now
     | GetEnroll code \<Rightarrow> getEnrollmentProfile code now
     | PostProfilesGenerate deviceId userId st securityLevel profileUUID code gen \<Rightarrow>
         generateSupervisionProfile L deviceId userId st securityLevel profileUUID code gen now
     | GetDeviceStatus deviceId \<Rightarrow> getDeviceStatus deviceId
     | PostDeviceCommand deviceId commandType parameters uuid \<Rightarrow>
         sendCommand deviceId commandType parameters uuid now
     | PostDeviceVerify deviceId gen \<Rightarrow> verifyDevice deviceId gen now)"

text \<open>
  The middleware in front of the routes: a matching \<^verbatim>\<open>x-api-key\<close> header, or one of the
  two protocol endpoints.
\<close>

definition route :: "libs \<Rightarrow> time \<Rightarrow> string option \<Rightarrow> request \<Rightarrow> server \<Rightarrow> reply \<times> server" where
  "route L now key req s =
    (if (case key of None \<Rightarrow> False | Some k \<Rightarrow> k \<noteq> [] \<and> k = apiKey (cfg s))
        \<or> protocol_endpoint req
     then dispatch L now req s
     else (Reply 401 [] (Json [(''error'', PStr ''Invalid API key'')]), s))"

section \<open>Notions used in the properties\<close>

text \<open>An effect keeps a component \<open>f\<close> of the state when no run of it changes \<open>f\<close>.\<close>

definition keeps :: "(server \<Rightarrow> 'x) \<Rightarrow> 'a io \<Rightarrow> bool" where
  "keeps f m = (\<forall>s. f (snd (m s)) = f s)"

text \<open>
  A component of the state that depends on the record store through the command table at
  most, and not on the statement counter.
\<close>

definition ignores_rest :: "(server \<Rightarrow> 'x) \<Rightarrow> bool" where
  "ignores_rest f =
    ((\<forall>s n. f (s\<lparr>db_queries := n\<rparr>) = f s) \<and>
     (\<forall>s t. mdm_commands t = mdm_commands (db s) \<longrightarrow> f (s\<lparr>db := t\<rparr>) = f s))"

text \<open>The status code of a reply, and the reply of a successful profile download.\<close>

definition status_code :: "reply \<Rightarrow> nat" where
  "status_code r = (case r of Reply n h b \<Rightarrow> n)"

definition download_reply :: "string \<Rightarrow> reply" where
  "download_reply bytes = Reply 200
     [(''Content-Type'', ''application/x-apple-aspen-config''),
      (''Content-Disposition'', ''attachment; filename='' @ [CHR 0x22] @
         ''altrii-recovery-supervision.mobileconfig'' @ [CHR 0x22])]
     (Bytes bytes)"

text \<open>The reply of the command endpoint for the outcome of \<open>getNextCommand\<close>.\<close>

definition command_reply :: "exn + command option \<Rightarrow> reply" where
  "command_reply r = (case r of
      Inl e \<Rightarrow> Reply 500 [] NoBody
    | Inr None \<Rightarrow> Reply 200 [] NoBody
    | Inr (Some c) \<Rightarrow>
        Reply 200 [(''Content-Type'', ''application/x-apple-aspen-mdm'')] (PlistCommand c))"

text \<open>The document of a build that did not throw.\<close>

definition built_profile :: "(exn + obj) \<times> server \<Rightarrow> obj option" where
  "built_profile r = (case fst r of Inl e \<Rightarrow> None | Inr p \<Rightarrow> Some p)"

text \<open>The requests whose handlers contain a call of \<open>sendPushNotification\<close>.\<close>

definition may_wake :: "request \<Rightarrow> bool" where
  "may_wake req = (case req of
      PutCheckIn d body \<Rightarrow> (case body of None \<Rightarrow> False
        | Some m \<Rightarrow> MessageType m = ''TokenUpdate'')
    | PostDeviceCommand d ty ps u \<Rightarrow> True
    | PostDeviceVerify d g \<Rightarrow> True
    | _ \<Rightarrow> False)"

definition device_of :: "request \<Rightarrow> string" where
  "device_of req = (case req of
      PutCheckIn d body \<Rightarrow> d
    | PostDeviceCommand d ty ps u \<Rightarrow> d
    | PostDeviceVerify d g \<Rightarrow> d
    | _ \<Rightarrow> [])"

text \<open>
  Between two states, the push trace is the same, or has grown by one notification that
  carries the push magic and the push token of the session entry of the device.
\<close>

definition woken_with :: "string \<Rightarrow> server \<Rightarrow> server \<Rightarrow> bool" where
  "woken_with d s s' =
    (apn_sent s' = apn_sent s \<or>
     (case deviceSessions s' d of
        None \<Rightarrow> False
      | Some se \<Rightarrow> s_pushToken se \<noteq> None \<and>
          apn_sent s' = apn_sent s @
            [(\<lparr>topic = topic_of (cfg s'), pushType = ''mdm'', priority = 5,
               mdm = s_pushMagic se\<rparr>, s_pushToken se)]))"

text \<open>The four commands \<^verbatim>\<open>verifyDevice\<close> enqueues.\<close>

definition verify_commands :: "(nat \<Rightarrow> string) \<Rightarrow> command list" where
  "verify_commands gen =
    [buildCommand (gen 0) ''ProfileList'' [], buildCommand (gen 1) ''SecurityInfo'' [],
     buildCommand (gen 2) ''Restrictions'' [],
     buildCommand (gen 3) ''InstalledApplicationList'' []]"

text \<open>
  A run of enqueueing requests: send-command (device, command type, parameters, generated
  identifier, clock reading) and verify-device (device, generated identifiers, clock
  reading). It returns, in order, the commands of the requests that were answered 200,
  each with its device.
\<close>

datatype enqueue_request =
    Send string string "obj option" string time
  | Verify string "nat \<Rightarrow> string" time

fun enqueue_all :: "enqueue_request list \<Rightarrow> server \<Rightarrow> (string \<times> command) list \<times> server" where
  "enqueue_all [] s = ([], s)"
| "enqueue_all (Send d ty ps u now # es) s =
    (case sendCommand d ty ps u now s of (r, s1) \<Rightarrow>
       (case enqueue_all es s1 of (accepted, s2) \<Rightarrow>
          ((if status_code r = 200 then [(d, buildCommand u ty (or_empty ps))] else [])
             @ accepted, s2)))"
| "enqueue_all (Verify d gen now # es) s =
    (case verifyDevice d gen now s of (r, s1) \<Rightarrow>
       (case enqueue_all es s1 of (accepted, s2) \<Rightarrow>
          ((if status_code r = 200 then map (Pair d) (verify_commands gen) else [])
             @ accepted, s2)))"

text \<open>The accepted commands of one device, in order.\<close>

definition commands_for :: "string \<Rightarrow> (string \<times> command) list \<Rightarrow> command list" where
  "commands_for d accepted = map snd (filter (\<lambda>e. fst e = d) accepted)"

section \<open>Example inputs\<close>

text \<open>A configuration without signing identity, and libraries that are easy to evaluate.\<close>

definition example_config :: config where
  "example_config = \<lparr>serverUrl = ''https://mdm.example'', mdmTopic = None, production = False,
     apiKey = ''k'', signingCertificate = None, signingKey = None\<rparr>"

definition example_libs :: libs where
  "example_libs = \<lparr>plist_build = (\<lambda>ob. concat (map fst ob)),
     pkcs7_sign = (\<lambda>cert key data. Some (cert @ key @ data))\<rparr>"

text \<open>An empty record store, and one with a single device record.\<close>

definition empty_tables :: tables where
  "empty_tables = \<lparr>device_profiles = [], mdm_device_sessions = [], mdm_commands = [],
     mdm_device_events = [], supervision_profiles = [], supervision_enrollments = [],
     blocked_domains = [], blocked_apps = [], device_app_inventory = [],
     device_restrictions = []\<rparr>"

definition one_device_tables :: tables where
  "one_device_tables = empty_tables\<lparr>device_profiles :=
     [\<lparr>dp_id = 1, dp_profile_uuid = ''D1'', dp_mdm_enrolled = False,
       dp_supervision_level = 0\<rparr>]\<rparr>"

text \<open>A record store that never throws.\<close>

definition never :: "nat \<Rightarrow> bool" where
  "never n = False"

text \<open>
  The state the constructor leaves: the three maps empty, nothing sent. Whether the push
  provider could be set up, and how the record store will behave, are given.
\<close>

definition new_server :: "config \<Rightarrow> bool \<Rightarrow> tables \<Rightarrow> (nat \<Rightarrow> bool) \<Rightarrow> server" where
  "new_server c apn t thr = \<lparr>cfg = c, apnProvider = apn, deviceSessions = Map.empty,
     pendingCommands = Map.empty, enrollmentCodes = Map.empty, db = t, db_throws = thr,
     db_queries = 0, apn_sent = []\<rparr>"

definition example_server :: server where
  "example_server = new_server example_config True empty_tables never"

definition fresh_server :: server where
  "fresh_server = new_server example_config True one_device_tables never"

definition no_blocking :: settings where
  "no_blocking = \<lparr>block_adult_content = False, block_gambling = False,
     block_social_media = False, block_gaming = False, block_news = False,
     block_entertainment = False, block_shopping = False, block_dating = False,
     custom_blocked_domains = None, customAllowedDomains = None,
     additionalBlockedApps = None, allowJavaScript = None\<rparr>"

definition block_911 :: settings where
  "block_911 = no_blocking\<lparr>custom_blocked_domains :=
     Some [''911.gov'', ''api.altriirecovery.com'']\<rparr>"

definition example_gen :: "nat \<Rightarrow> string" where
  "example_gen n = replicate (Suc n) CHR ''u''"

definition example_options :: "settings \<Rightarrow> int \<Rightarrow> options" where
  "example_options st l = \<lparr>o_deviceId = ''D1'', o_profileUUID = ''P1'', o_settings = st,
     o_securityLevel = l, o_isWebOnly = True\<rparr>"

text \<open>Runs of the handlers from the fresh server that the examples start from.\<close>

definition issued_server :: server where
  "issued_server = snd (generateSupervisionProfile example_libs ''D1'' ''U1'' no_blocking 1
     ''P1'' ''CODE'' example_gen 0 fresh_server)"

definition checkin_message :: "string \<Rightarrow> checkin" where
  "checkin_message ty = \<lparr>MessageType = ty, UDID = Some ''udid-1'', SerialNumber = Some ''SN1'',
     Model = Some ''iPhone'', OSVersion = Some ''17.0'', BuildVersion = Some ''21A'',
     IsSupervised = Some True, Token = Some ''token-1'', PushMagic = Some ''magic-1'',
     UnlockToken = None, Reason = None\<rparr>"

definition acknowledge :: "string \<Rightarrow> commandResponse" where
  "acknowledge uuid = \<lparr>rCommandUUID = Some uuid, Status = ''Acknowledged'',
     RequestType = None, ProfileList = None, SecurityInfo = None,
     InstalledApplicationList = None, Restrictions = None\<rparr>"

definition authenticated_server :: server where
  "authenticated_server =
     snd (handleCheckIn ''D1'' (Some (checkin_message ''Authenticate'')) 1 fresh_server)"

definition woken_server :: server where
  "woken_server =
     snd (handleCheckIn ''D1'' (Some (checkin_message ''TokenUpdate'')) 2 authenticated_server)"

definition queued_server :: server where
  "queued_server = snd (sendCommand ''D1'' ''ProfileList'' None ''A'' 2 fresh_server)"

definition two_queued_server :: server where
  "two_queued_server =
     snd (sendCommand ''D1'' ''SecurityInfo'' None ''B'' 3
       (snd (sendCommand ''D1'' ''ProfileList'' None ''A'' 2 authenticated_server)))"

text \<open>A record store whose \<open>k\<close>-th statement throws, and only that one.\<close>

definition throws_at :: "nat \<Rightarrow> nat \<Rightarrow> bool" where
  "throws_at k n = (n = k)"

text \<open>A store with one device record that is enrolled at security level 3.\<close>

definition enrolled_tables :: tables where
  "enrolled_tables = empty_tables\<lparr>device_profiles :=
     [\<lparr>dp_id = 1, dp_profile_uuid = ''D1'', dp_mdm_enrolled = True,
       dp_supervision_level = 3\<rparr>]\<rparr>"

text \<open>
  The enrolled device has authenticated; then the in-memory maps are cleared, as a
  shutdown or a restart does.
\<close>

definition cleared_server :: server where
  "cleared_server = shutdown
     (snd (handleCheckIn ''D1'' (Some (checkin_message ''Authenticate'')) 1
        (new_server example_config True enrolled_tables never)))"

text \<open>
  The enrolled device has authenticated, on a store whose next statement (the fifth)
  will throw.
\<close>

definition failing_server :: server where
  "failing_server =
     snd (handleCheckIn ''D1'' (Some (checkin_message ''Authenticate'')) 1
        (new_server example_config True enrolled_tables (throws_at 4)))"

definition restarted_server :: server where
  "restarted_server = shutdown (snd (sendCommand ''D1'' ''ProfileList'' None ''B'' 2 fresh_server))"

definition overtaken_server :: server where
  "overtaken_server = snd (sendCommand ''D1'' ''SecurityInfo'' None ''C'' 3 restarted_server)"

section \<open>Properties of the profile builder\<close>

lemma payloads_of_build:
  assumes "buildSupervisionProfile gen opts s = (Inr profile, s')"
  shows "\<exists>fp. fst (buildContentFilterPayload (gen 1) (o_deviceId opts) (o_settings opts) (o_isWebOnly opts) s) = Inr fp \<and>
    payloads_of profile =
      [PObj (buildMDMPayload (cfg s) (gen 0) (o_deviceId opts)), PObj fp] @
      (if o_securityLevel opts \<ge> 2 then [PObj (buildRestrictionsPayload (gen 2) (o_deviceId opts) (o_settings opts) (o_securityLevel opts)),
          PObj (buildSecurityPayload (gen 3) (o_deviceId opts) (o_securityLevel opts))] else [])"
  using assms
  by (auto simp: buildSupervisionProfile_def andThen_def ret_def Let_def payloads_of_def getp_def
      split: prod.splits sum.splits)

lemma type_mdm: "getp (buildMDMPayload c u d) ''PayloadType'' = PStr ''com.apple.mdm''"
  by (simp add: buildMDMPayload_def getp_def)

lemma type_restrictions:
  "getp (buildRestrictionsPayload u d st l) ''PayloadType'' = PStr ''com.apple.applicationaccess''"
  by (simp add: buildRestrictionsPayload_def baseRestrictions_def getp_def)

lemma type_security:
  "getp (buildSecurityPayload u d l) ''PayloadType'' = PStr ''com.apple.security''"
  by (simp add: buildSecurityPayload_def Object_assign_def getp_def Let_def update_conv')

lemma filter_payload_fields:
  assumes "fst (buildContentFilterPayload u d st w s) = Inr fp"
  shows "getp fp ''PayloadType'' = PStr ''com.apple.webcontent-filter''"
    and "\<exists>doms. fst (compileBlockedDomains st s) = Inr doms \<and> getp fp ''BlacklistedURLs'' = strs doms"
  using assms
  by (auto simp: buildContentFilterPayload_def andThen_def ret_def getp_def
      split: prod.splits sum.splits)

lemma allowAppInstallation_level3:
  "l \<ge> 3 \<Longrightarrow> getp (buildRestrictionsPayload u d st l) ''allowAppInstallation'' = PBool False"
  by (simp add: buildRestrictionsPayload_def baseRestrictions_def getp_def)

text \<open>
  C6: a profile built with security level 1 holds no restrictions payload and no security
  payload; a profile built with security level 3 holds exactly one of each, and its
  restrictions payload sets \<open>allowAppInstallation\<close> to false.
\<close>

theorem securityLevel_payloads:
  assumes "buildSupervisionProfile gen opts s = (Inr profile, s')"
  shows "(o_securityLevel opts = 1 \<longrightarrow>
            payloads_of_type ''com.apple.applicationaccess'' profile = [] \<and>
            payloads_of_type ''com.apple.security'' profile = []) \<and>
         (o_securityLevel opts = 3 \<longrightarrow>
            payloads_of_type ''com.apple.applicationaccess'' profile =
              [buildRestrictionsPayload (gen 2) (o_deviceId opts) (o_settings opts) 3] \<and>
            getp (buildRestrictionsPayload (gen 2) (o_deviceId opts) (o_settings opts) 3)
              ''allowAppInstallation'' = PBool False \<and>
            payloads_of_type ''com.apple.security'' profile =
              [buildSecurityPayload (gen 3) (o_deviceId opts) 3])"
proof -
  from payloads_of_build [OF assms] obtain fp where
    fp: "fst (buildContentFilterPayload (gen 1) (o_deviceId opts) (o_settings opts)
           (o_isWebOnly opts) s) = Inr fp"
    and ps: "payloads_of profile =
      [PObj (buildMDMPayload (cfg s) (gen 0) (o_deviceId opts)), PObj fp] @
      (if o_securityLevel opts \<ge> 2
       then [PObj (buildRestrictionsPayload (gen 2) (o_deviceId opts) (o_settings opts)
                (o_securityLevel opts)),
             PObj (buildSecurityPayload (gen 3) (o_deviceId opts) (o_securityLevel opts))]
       else [])"
    by blast
  note ty = type_mdm type_restrictions type_security filter_payload_fields(1) [OF fp]
  show ?thesis
    by (simp add: payloads_of_type_def ps ty allowAppInstallation_level3)
qed

lemma example_build:
  "\<exists>p s'. buildSupervisionProfile example_gen (example_options no_blocking l) example_server
     = (Inr p, s')"
  by (simp add: buildSupervisionProfile_def buildContentFilterPayload_def
      compileBlockedDomains_def categories_of_def andThen_def ret_def example_options_def
      no_blocking_def Let_def)

theorem securityLevel_payloads_witness:
  "payloads_of_type ''com.apple.applicationaccess''
     (the (built_profile (buildSupervisionProfile example_gen
        (example_options no_blocking 1) example_server))) = [] \<and>
   payloads_of_type ''com.apple.security''
     (the (built_profile (buildSupervisionProfile example_gen
        (example_options no_blocking 1) example_server))) = [] \<and>
   payloads_of_type ''com.apple.security''
     (the (built_profile (buildSupervisionProfile example_gen
        (example_options no_blocking 3) example_server))) =
     [buildSecurityPayload (example_gen 3) ''D1'' 3]"
proof -
  obtain p1 s1 where b1: "buildSupervisionProfile example_gen
      (example_options no_blocking 1) example_server = (Inr p1, s1)"
    using example_build by blast
  obtain p3 s3 where b3: "buildSupervisionProfile example_gen
      (example_options no_blocking 3) example_server = (Inr p3, s3)"
    using example_build by blast
  have o: "o_securityLevel (example_options no_blocking l) = l"
    "o_deviceId (example_options no_blocking l) = ''D1''" for l
    by (simp_all add: example_options_def)
  show ?thesis
    using securityLevel_payloads [OF b1] securityLevel_payloads [OF b3]
    by (simp add: built_profile_def b1 b3 o)
qed

lemma set_uniq: "set (uniq xs) = set xs"
  by (induction xs rule: uniq.induct) auto

lemma string_array_strs: "string_array (strs xs) = xs"
  by (induction xs) (simp_all add: string_array_def strs_def)

lemma compileBlockedDomains_set:
  assumes "fst (compileBlockedDomains st s) = Inr doms"
  shows "set doms =
    {d \<in> set (fst (select_category_domains (categories_of st) (db s))) \<union>
          set (or_empty (custom_blocked_domains st)).
       \<not> str_includes d ''altriirecovery.com''}"
  using assms
  by (auto simp: compileBlockedDomains_def andThen_def ret_def query_def Let_def set_uniq
      or_empty_def select_category_domains_def
      split: prod.splits sum.splits if_splits option.splits) force+

lemma deny_list_build:
  assumes "buildSupervisionProfile gen opts s = (Inr profile, s')"
  shows "\<exists>doms. fst (compileBlockedDomains (o_settings opts) s) = Inr doms \<and>
           deny_list profile = doms"
proof -
  from payloads_of_build [OF assms] obtain fp where
    fp: "fst (buildContentFilterPayload (gen 1) (o_deviceId opts) (o_settings opts)
           (o_isWebOnly opts) s) = Inr fp"
    and ps: "payloads_of profile =
      [PObj (buildMDMPayload (cfg s) (gen 0) (o_deviceId opts)), PObj fp] @
      (if o_securityLevel opts \<ge> 2
       then [PObj (buildRestrictionsPayload (gen 2) (o_deviceId opts) (o_settings opts)
                (o_securityLevel opts)),
             PObj (buildSecurityPayload (gen 3) (o_deviceId opts) (o_securityLevel opts))]
       else [])"
    by blast
  from filter_payload_fields(2) [OF fp] obtain doms where
    d: "fst (compileBlockedDomains (o_settings opts) s) = Inr doms"
    and b: "getp fp ''BlacklistedURLs'' = strs doms"
    by blast
  note ty = type_mdm type_restrictions type_security filter_payload_fields(1) [OF fp]
  have "deny_list profile = doms"
    by (cases "2 \<le> o_securityLevel opts")
      (simp_all add: deny_list_def payloads_of_type_def ps ty b string_array_strs)
  with d show ?thesis by blast
qed

lemma operator_domains_include:
  "str_includes ''altriirecovery.com'' ''altriirecovery.com''"
  "str_includes ''www.altriirecovery.com'' ''altriirecovery.com''"
  "str_includes ''app.altriirecovery.com'' ''altriirecovery.com''"
  "str_includes ''api.altriirecovery.com'' ''altriirecovery.com''"
  by simp_all

text \<open>
  C1, as the code has it: the deny-list of a built profile is the set of category domains
  and custom-blocked domains that do not contain \<^verbatim>\<open>altriirecovery.com\<close> as a substring.
  So none of the operator's four service domains is ever on it, whatever the policy says;
  nothing else is subtracted.
\<close>

theorem deny_list_subtracts_operator_domains:
  assumes "buildSupervisionProfile gen opts s = (Inr profile, s')"
  shows "set (deny_list profile) =
           {d \<in> set (fst (select_category_domains (categories_of (o_settings opts)) (db s))) \<union>
                 set (or_empty (custom_blocked_domains (o_settings opts))).
              \<not> str_includes d ''altriirecovery.com''} \<and>
         set (deny_list profile) \<inter>
           {''altriirecovery.com'', ''www.altriirecovery.com'', ''app.altriirecovery.com'',
            ''api.altriirecovery.com''} = {}"
proof -
  from deny_list_build [OF assms] obtain doms where
    d: "fst (compileBlockedDomains (o_settings opts) s) = Inr doms"
    and e: "deny_list profile = doms"
    by blast
  have 1: "set (deny_list profile) =
           {d \<in> set (fst (select_category_domains (categories_of (o_settings opts)) (db s))) \<union>
                 set (or_empty (custom_blocked_domains (o_settings opts))).
              \<not> str_includes d ''altriirecovery.com''}"
    using compileBlockedDomains_set [OF d] e by simp
  have 2: "\<forall>x \<in> set (deny_list profile). \<not> str_includes x ''altriirecovery.com''"
    using 1 by blast
  have "set (deny_list profile) \<inter>
           {''altriirecovery.com'', ''www.altriirecovery.com'', ''app.altriirecovery.com'',
            ''api.altriirecovery.com''} = {}"
    using 2 operator_domains_include by blast
  with 1 show ?thesis by blast
qed

lemma example_build_911:
  "\<exists>s'. buildSupervisionProfile example_gen (example_options block_911 1) example_server
     = (Inr (the (built_profile (buildSupervisionProfile example_gen
          (example_options block_911 1) example_server))), s')"
  by (simp add: buildSupervisionProfile_def buildContentFilterPayload_def
      compileBlockedDomains_def categories_of_def andThen_def ret_def example_options_def
      no_blocking_def block_911_def Let_def built_profile_def)

theorem deny_list_subtracts_operator_domains_witness:
  "''api.altriirecovery.com'' \<notin> set (deny_list (the (built_profile
     (buildSupervisionProfile example_gen (example_options block_911 1) example_server))))"
proof -
  obtain s' where b: "buildSupervisionProfile example_gen (example_options block_911 1)
      example_server = (Inr (the (built_profile (buildSupervisionProfile example_gen
          (example_options block_911 1) example_server))), s')"
    using example_build_911 by blast
  show ?thesis
    using deny_list_subtracts_operator_domains [OF b] by blast
qed

text \<open>
  C1 as stated fails: an emergency domain of the baseline permitted list that the policy
  lists as custom-blocked stays on the deny-list of the built profile.
\<close>

theorem deny_list_keeps_emergency_domain:
  "deny_list (the (built_profile (buildSupervisionProfile example_gen
     (example_options block_911 1) example_server))) = [''911.gov''] \<and>
   ''911.gov'' \<in> set getBaselinePermittedURLs"
  by (simp add: buildSupervisionProfile_def buildContentFilterPayload_def
      compileBlockedDomains_def categories_of_def andThen_def ret_def example_options_def
      no_blocking_def block_911_def Let_def built_profile_def deny_list_def
      payloads_of_type_def payloads_of_def getp_def buildMDMPayload_def string_array_def
      strs_def getBaselinePermittedURLs_def)

text \<open>
  C9: when the signing certificate or the signing key is not configured, \<open>signProfile\<close>
  returns the serialised document as it is.
\<close>

theorem signProfile_unsigned_fallback:
  "signingCertificate c = None \<or> signingKey c = None \<Longrightarrow>
   signProfile L c profile = plist_build L profile"
  by (auto simp: signProfile_def Let_def split: option.splits)

theorem signProfile_unsigned_fallback_witness:
  "signProfile example_libs (example_config\<lparr>signingCertificate := Some ''cert''\<rparr>)
     [(''PayloadType'', PStr ''Configuration'')] = ''PayloadType''"
  using signProfile_unsigned_fallback [of "example_config\<lparr>signingCertificate := Some ''cert''\<rparr>"
      example_libs "[(''PayloadType'', PStr ''Configuration'')]"]
  by (simp add: example_config_def example_libs_def)

section \<open>Frame rules\<close>

lemma keepsD: "keeps f m \<Longrightarrow> f (snd (m s)) = f s"
  by (simp add: keeps_def)

lemma keeps_ret: "keeps f (ret x)"
  by (simp add: keeps_def ret_def)

lemma keeps_throw: "keeps f (throw e)"
  by (simp add: keeps_def throw_def)

lemma keeps_andThen: "keeps f m \<Longrightarrow> (\<And>x. keeps f (g x)) \<Longrightarrow> keeps f (andThen m g)"
  unfolding keeps_def andThen_def
  by (auto split: prod.splits sum.splits) (metis snd_conv)+

lemma keeps_try_catch: "keeps f m \<Longrightarrow> (\<And>e. keeps f (h e)) \<Longrightarrow> keeps f (try_catch m h)"
  unfolding keeps_def try_catch_def
  by (auto split: prod.splits sum.splits) (metis snd_conv)+

lemma keeps_query:
  assumes "\<And>s. f (s\<lparr>db_queries := Suc (db_queries s)\<rparr>) = f s"
    and "\<And>s. f (s\<lparr>db_queries := Suc (db_queries s), db := snd (q (db s))\<rparr>) = f s"
  shows "keeps f (query q)"
  using assms by (auto simp: keeps_def query_def Let_def split: prod.splits) (metis snd_conv)

lemma keeps_if: "keeps f a \<Longrightarrow> keeps f b \<Longrightarrow> keeps f (if c then a else b)"
  by simp

lemmas keeps_intros = keeps_ret keeps_throw keeps_andThen keeps_try_catch keeps_if

lemma keeps_logDeviceEvent:
  assumes "\<And>s. f (s\<lparr>db_queries := Suc (db_queries s)\<rparr>) = f s"
    and "\<And>s t. f (s\<lparr>db_queries := Suc (db_queries s),
            db := (db s)\<lparr>mdm_device_events := t\<rparr>\<rparr>) = f s"
  shows "keeps f (logDeviceEvent d ty dat)"
  unfolding logDeviceEvent_def
  by (intro keeps_intros keeps_query) (simp_all add: assms)

lemma snd_respond: "snd (respond m h s) = snd (m s)"
  by (simp add: respond_def split: prod.splits sum.splits)

lemma andThen_modify: "andThen (modify f) g s = g () (f s)"
  by (simp add: andThen_def modify_def)

lemma keeps_db_getPendingCommands: "keeps db (getPendingCommands d)"
  unfolding keeps_def
proof
  fix s
  have k: "keeps db (andThen (query (select_device d)) (\<lambda>device.
          case device of [] \<Rightarrow> ret []
          | x # _ \<Rightarrow> query (select_pending (dp_id x))))"
    by (intro keeps_intros keeps_query)
      (simp_all add: select_device_def select_pending_def keeps_ret keeps_query split: list.split)
  show "db (snd (getPendingCommands d s)) = db s"
    using keepsD [OF k, of s] by (simp add: getPendingCommands_def Let_def ret_def)
qed

section \<open>Properties of the check-in handler\<close>

lemma sessions_after_checkout:
  "deviceSessions (snd (handleCheckOut d data s)) d = None"
proof (cases "deviceSessions s d")
  case None
  then show ?thesis by (simp add: handleCheckOut_def)
next
  case (Some session)
  have k: "keeps deviceSessions
     (andThen (query (unenroll_device (s_deviceId session))) (\<lambda>_.
      andThen (query (delete_session (s_deviceId session))) (\<lambda>_.
      andThen (logDeviceEvent (RecordId (s_deviceId session)) ''unenrolled''
                 (Unenrolled_data (case Reason data of None \<Rightarrow> ''User initiated''
                    | Some r \<Rightarrow> if r = [] then ''User initiated'' else r))) (\<lambda>_.
      ret (Reply 200 [] NoBody)))))"
    by (intro keeps_intros keeps_query keeps_logDeviceEvent) simp_all
  show ?thesis
    using Some by (simp add: handleCheckOut_def snd_respond andThen_modify keepsD [OF k])
qed

text \<open>
  What holds of the session registry: a check-out of a device without registry entry
  replies 200 and changes nothing, and after any two consecutive check-outs the second
  has replied 200 and the registry holds no entry of the device, whatever the record
  store does.
\<close>

lemma checkout_registry:
  "(deviceSessions s d = None \<longrightarrow> handleCheckOut d data s = (Reply 200 [] NoBody, s)) \<and>
   fst (handleCheckOut d data' (snd (handleCheckOut d data s))) = Reply 200 [] NoBody \<and>
   deviceSessions (snd (handleCheckOut d data' (snd (handleCheckOut d data s)))) d = None"
proof -
  have 1: "deviceSessions s d = None \<Longrightarrow> handleCheckOut d data s = (Reply 200 [] NoBody, s)"
    for s data
    by (simp add: handleCheckOut_def)
  show ?thesis
    using 1 sessions_after_checkout by simp
qed

lemmas checkout_defs = handleCheckIn_def handleAuthenticate_def handleCheckOut_def respond_def
  andThen_def query_def try_catch_def logDeviceEvent_def modify_def ret_def
  select_device_def select_session_def insert_session_def unenroll_device_def
  delete_session_def new_server_def enrolled_tables_def empty_tables_def never_def
  throws_at_def checkin_message_def shutdown_def Let_def

text \<open>
  C8 says that a check-out without session succeeds and that after two consecutive
  check-outs no session of the device exists. The session is kept in the registry and in
  the table \<open>mdm_device_sessions\<close>, and the code breaks the second half for the table.
  When the maps have been cleared after the device authenticated, both check-outs find
  no registry entry, reply 200 and send no statement. When the first statement of the
  first check-out throws, that check-out has already deleted the registry entry and
  replies 500, and the second finds no entry and replies 200. Either way the session row
  is still in the table and the device record is still enrolled.
\<close>

theorem checkout_leaves_durable_session:
  "fst (handleCheckOut ''D1'' (checkin_message ''CheckOut'') cleared_server) =
     Reply 200 [] NoBody \<and>
   fst (handleCheckOut ''D1'' (checkin_message ''CheckOut'')
     (snd (handleCheckOut ''D1'' (checkin_message ''CheckOut'') cleared_server))) =
     Reply 200 [] NoBody \<and>
   map ms_device_id (mdm_device_sessions (db
     (snd (handleCheckOut ''D1'' (checkin_message ''CheckOut'')
       (snd (handleCheckOut ''D1'' (checkin_message ''CheckOut'') cleared_server)))))) = [1] \<and>
   map dp_mdm_enrolled (device_profiles (db
     (snd (handleCheckOut ''D1'' (checkin_message ''CheckOut'')
       (snd (handleCheckOut ''D1'' (checkin_message ''CheckOut'') cleared_server)))))) = [True] \<and>
   fst (handleCheckOut ''D1'' (checkin_message ''CheckOut'') failing_server) =
     Reply 500 [] NoBody \<and>
   fst (handleCheckOut ''D1'' (checkin_message ''CheckOut'')
     (snd (handleCheckOut ''D1'' (checkin_message ''CheckOut'') failing_server))) =
     Reply 200 [] NoBody \<and>
   map ms_device_id (mdm_device_sessions (db
     (snd (handleCheckOut ''D1'' (checkin_message ''CheckOut'')
       (snd (handleCheckOut ''D1'' (checkin_message ''CheckOut'') failing_server)))))) = [1] \<and>
   map dp_mdm_enrolled (device_profiles (db
     (snd (handleCheckOut ''D1'' (checkin_message ''CheckOut'')
       (snd (handleCheckOut ''D1'' (checkin_message ''CheckOut'') failing_server)))))) = [True]"
  by (simp add: cleared_server_def failing_server_def checkout_defs)

section \<open>Properties of the enrollment registrar\<close>

lemma keeps_codes_log: "keeps enrollmentCodes (logDeviceEvent d ty dat)"
  by (intro keeps_logDeviceEvent) simp_all

lemma resolve_expired:
  assumes "enrollmentCodes s code = Some e" "expiresAt e < now"
  shows "getEnrollmentProfile code now s =
    (Reply 410 [] (Json [(''error'', PStr ''Enrollment code expired'')]),
     s\<lparr>enrollmentCodes := (enrollmentCodes s)(code := None)\<rparr>)"
  using assms by (simp add: getEnrollmentProfile_def)

lemma resolve_unknown:
  assumes "enrollmentCodes s code = None"
  shows "getEnrollmentProfile code now s =
    (Reply 404 [] (Json [(''error'', PStr ''Invalid enrollment code'')]), s)"
  using assms by (simp add: getEnrollmentProfile_def)

lemma resolve_valid:
  assumes "enrollmentCodes s code = Some e" "\<not> expiresAt e < now"
  shows "fst (getEnrollmentProfile code now s) = download_reply (profileData e)"
    and "enrollmentCodes (snd (getEnrollmentProfile code now s)) = enrollmentCodes s"
proof -
  have k: "keeps enrollmentCodes
     (andThen (logDeviceEvent (ProfileUuid (e_deviceId e)) ''profile_downloaded''
                 (Profile_downloaded_data code)) (\<lambda>_. query (mark_downloaded code)))"
    by (intro keeps_intros keeps_query keeps_codes_log) simp_all
  show "fst (getEnrollmentProfile code now s) = download_reply (profileData e)"
    using assms by (simp add: getEnrollmentProfile_def download_reply_def)
  show "enrollmentCodes (snd (getEnrollmentProfile code now s)) = enrollmentCodes s"
    using assms by (simp add: getEnrollmentProfile_def keepsD [OF k])
qed

text \<open>
  C7: resolving a code whose expiry time has passed replies 410 (expired) and removes the
  ticket, so that a second resolution, at any time, replies 404 (invalid code).
\<close>

theorem expired_code_rejected_twice:
  assumes "enrollmentCodes s code = Some e" and "expiresAt e < now"
  shows "fst (getEnrollmentProfile code now s) =
           Reply 410 [] (Json [(''error'', PStr ''Enrollment code expired'')]) \<and>
         enrollmentCodes (snd (getEnrollmentProfile code now s)) code = None \<and>
         fst (getEnrollmentProfile code now' (snd (getEnrollmentProfile code now s))) =
           Reply 404 [] (Json [(''error'', PStr ''Invalid enrollment code'')])"
  by (simp add: resolve_expired [OF assms] resolve_unknown)

lemma issued_ticket:
  "\<exists>e. enrollmentCodes issued_server ''CODE'' = Some e \<and> expiresAt e = 86400000"
  by (simp add: issued_server_def generateSupervisionProfile_def respond_def andThen_def
      query_def select_device_def fresh_server_def new_server_def one_device_tables_def
      empty_tables_def never_def buildSupervisionProfile_def buildContentFilterPayload_def
      compileBlockedDomains_def categories_of_def no_blocking_def ret_def modify_def
      upsert_profile_def day_ms_def Let_def)

theorem expired_code_rejected_twice_witness:
  "status_code (fst (getEnrollmentProfile ''CODE'' 86400001 issued_server)) = 410 \<and>
   status_code (fst (getEnrollmentProfile ''CODE'' 86400001
     (snd (getEnrollmentProfile ''CODE'' 86400001 issued_server)))) = 404"
proof -
  obtain e where e: "enrollmentCodes issued_server ''CODE'' = Some e"
    and x: "expiresAt e = 86400000"
    using issued_ticket by blast
  have "expiresAt e < 86400001" using x by simp
  from expired_code_rejected_twice [OF e this, of 86400001] show ?thesis
    by (simp add: status_code_def)
qed

lemma keeps_codes_query: "keeps enrollmentCodes (query q)"
  by (rule keeps_query) simp_all

lemma generate_issues_ticket:
  assumes "status_code (fst (generateSupervisionProfile L d u st l pu code gen now s)) = 200"
  shows "\<exists>e. enrollmentCodes (snd (generateSupervisionProfile L d u st l pu code gen now s))
           code = Some e \<and> expiresAt e = now + day_ms"
proof -
  define iss where "iss = (\<lambda>dr :: device_profiles_row. \<lambda>profile :: obj.
     andThen (\<lambda>s. ret (signProfile L (cfg s) profile) s) (\<lambda>signedProfile.
     andThen (modify (\<lambda>s. s\<lparr>enrollmentCodes := (enrollmentCodes s)(code \<mapsto>
                \<lparr>profileData = signedProfile, e_deviceId = d,
                  e_userId = u, e_profileUUID = pu,
                  expiresAt = now + day_ms\<rparr>)\<rparr>)) (\<lambda>_.
     andThen (query (upsert_profile (dp_id dr) pu
                (''com.altriirecovery.supervision.'' @ d) l signedProfile)) (\<lambda>_.
     ret (Reply 200 [] (Json [(''enrollmentCode'', PStr code),
                              (''profileUUID'', PStr pu),
                              (''downloadUrl'', PStr (''/mdm/enroll/'' @ code)),
                              (''expiresAt'', PNum (int (now + day_ms)))]))))))"
  have i: "\<exists>e. enrollmentCodes (snd (iss dr profile x)) code = Some e \<and>
      expiresAt e = now + day_ms" for dr profile x
  proof -
    define x1 where "x1 = x\<lparr>enrollmentCodes := (enrollmentCodes x)(code \<mapsto>
           \<lparr>profileData = signProfile L (cfg x) profile, e_deviceId = d, e_userId = u,
             e_profileUUID = pu, expiresAt = now + day_ms\<rparr>)\<rparr>"
    define Q where "Q = query (upsert_profile (dp_id dr) pu
                (''com.altriirecovery.supervision.'' @ d) l (signProfile L (cfg x) profile))"
    have k: "enrollmentCodes (snd (Q x1)) = enrollmentCodes x1"
      unfolding Q_def by (rule keepsD [OF keeps_codes_query])
    have "snd (iss dr profile x) = snd (Q x1)"
      unfolding iss_def Q_def x1_def
      by (simp add: andThen_def ret_def modify_def split: prod.splits sum.splits)
    moreover have "enrollmentCodes x1 code = Some \<lparr>profileData = signProfile L (cfg x) profile,
        e_deviceId = d, e_userId = u, e_profileUUID = pu, expiresAt = now + day_ms\<rparr>"
      by (simp add: x1_def)
    ultimately show ?thesis
      using k by simp
  qed
  have g: "generateSupervisionProfile L d u st l pu code gen now s =
      respond (andThen (query (select_device d)) (\<lambda>device. case device of
          [] \<Rightarrow> ret (Reply 404 [] (Json [(''error'', PStr ''Device not found'')]))
        | dr # _ \<Rightarrow> andThen (buildSupervisionProfile gen
              \<lparr>o_deviceId = d, o_profileUUID = pu, o_settings = st,
                o_securityLevel = l, o_isWebOnly = True\<rparr>) (iss dr)))
        (\<lambda>error. Reply 500 [] (Json [(''error'',
           PStr ''Failed to generate supervision profile'')])) s"
    unfolding generateSupervisionProfile_def iss_def ..
  show ?thesis
    using assms i
    by (auto simp: g respond_def andThen_def ret_def status_code_def
        split: prod.splits sum.splits list.splits) (metis snd_conv)
qed


text \<open>
  C2, as the code has it: resolution is decided by the in-memory registry alone. A
  profile generation that replies 200 has put the ticket there, expiring 24 hours later.
  While the ticket is in the registry, a resolution no later than its expiry time sends
  the profile and leaves the ticket where it is, so a second resolution before expiry
  sends the same profile again. A resolution of an expired ticket replies 410 and evicts
  it, and a resolution of a code that is not in the registry (never issued, evicted, or
  dropped when a shutdown cleared the maps) replies 404.
\<close>

theorem valid_code_resolves_again:
  "(status_code (fst (generateSupervisionProfile L d u st l pu code gen now0 s0)) = 200 \<longrightarrow>
      (\<exists>e. enrollmentCodes (snd (generateSupervisionProfile L d u st l pu code gen now0 s0))
             code = Some e \<and> expiresAt e = now0 + day_ms)) \<and>
   (enrollmentCodes s code = Some e \<and> \<not> expiresAt e < now \<longrightarrow>
      fst (getEnrollmentProfile code now s) = download_reply (profileData e) \<and>
      enrollmentCodes (snd (getEnrollmentProfile code now s)) = enrollmentCodes s \<and>
      (\<not> expiresAt e < now' \<longrightarrow>
         fst (getEnrollmentProfile code now' (snd (getEnrollmentProfile code now s))) =
           download_reply (profileData e))) \<and>
   (enrollmentCodes s code = Some e \<and> expiresAt e < now \<longrightarrow>
      getEnrollmentProfile code now s =
        (Reply 410 [] (Json [(''error'', PStr ''Enrollment code expired'')]),
         s\<lparr>enrollmentCodes := (enrollmentCodes s)(code := None)\<rparr>)) \<and>
   (enrollmentCodes s code = None \<longrightarrow>
      getEnrollmentProfile code now s =
        (Reply 404 [] (Json [(''error'', PStr ''Invalid enrollment code'')]), s)) \<and>
   getEnrollmentProfile code now (shutdown s) =
     (Reply 404 [] (Json [(''error'', PStr ''Invalid enrollment code'')]), shutdown s)"
proof -
  have 2: "fst (getEnrollmentProfile code now' (snd (getEnrollmentProfile code now s))) =
      download_reply (profileData e)"
    if a: "enrollmentCodes s code = Some e" "\<not> expiresAt e < now" "\<not> expiresAt e < now'"
  proof -
    have "enrollmentCodes (snd (getEnrollmentProfile code now s)) code = Some e"
      using resolve_valid(2) [OF a(1,2)] a(1) by simp
    from resolve_valid(1) [OF this a(3)] show ?thesis .
  qed
  have 5: "enrollmentCodes (shutdown s) code = None"
    by (simp add: shutdown_def)
  show ?thesis
    using generate_issues_ticket [of L d u st l pu code gen now0 s0]
      resolve_valid [of s code e now] 2 resolve_expired [of s code e now]
      resolve_unknown [of s code now] resolve_unknown [OF 5, of now]
    by blast
qed

theorem valid_code_resolves_again_witness:
  "status_code (fst (generateSupervisionProfile example_libs ''D1'' ''U1'' no_blocking 1
     ''P1'' ''CODE'' example_gen 0 fresh_server)) = 200 \<and>
   status_code (fst (getEnrollmentProfile ''CODE'' 20
     (snd (getEnrollmentProfile ''CODE'' 10 issued_server)))) = 200 \<and>
   status_code (fst (getEnrollmentProfile ''CODE'' 86400001 issued_server)) = 410 \<and>
   status_code (fst (getEnrollmentProfile ''CODE'' 10 (shutdown issued_server))) = 404"
proof -
  have g: "status_code (fst (generateSupervisionProfile example_libs ''D1'' ''U1'' no_blocking 1
     ''P1'' ''CODE'' example_gen 0 fresh_server)) = 200"
    by (simp add: generateSupervisionProfile_def respond_def andThen_def
      query_def select_device_def fresh_server_def new_server_def one_device_tables_def
      empty_tables_def never_def buildSupervisionProfile_def buildContentFilterPayload_def
      compileBlockedDomains_def categories_of_def no_blocking_def ret_def modify_def
      upsert_profile_def day_ms_def Let_def status_code_def)
  obtain e where e: "enrollmentCodes issued_server ''CODE'' = Some e"
    and x: "expiresAt e = 0 + day_ms"
    using valid_code_resolves_again [of example_libs "''D1''" "''U1''" no_blocking 1 "''P1''"
        "''CODE''" example_gen 0 fresh_server] g
    unfolding issued_server_def by blast
  have v: "\<not> expiresAt e < 10" "\<not> expiresAt e < 20" "expiresAt e < 86400001"
    using x by (simp_all add: day_ms_def)
  show ?thesis
    using g
      valid_code_resolves_again [where s = issued_server and code = "''CODE''" and e = e
        and now = 10 and now' = 20]
      valid_code_resolves_again [where s = issued_server and code = "''CODE''" and e = e
        and now = 86400001]
      e v
    by (simp add: status_code_def download_reply_def)
qed

text \<open>
  C2 as stated fails: a code issued by \<open>generateSupervisionProfile\<close> is resolved twice
  within its validity, and the second resolution gives the reply of the first.
\<close>

theorem second_resolution_succeeds:
  "status_code (fst (getEnrollmentProfile ''CODE'' 10 issued_server)) = 200 \<and>
   fst (getEnrollmentProfile ''CODE'' 20 (snd (getEnrollmentProfile ''CODE'' 10 issued_server)))
     = fst (getEnrollmentProfile ''CODE'' 10 issued_server)"
proof -
  obtain e where e: "enrollmentCodes issued_server ''CODE'' = Some e"
    and x: "expiresAt e = 86400000"
    using issued_ticket by blast
  have v: "\<not> expiresAt e < 10" "\<not> expiresAt e < 20" using x by simp_all
  have 1: "fst (getEnrollmentProfile ''CODE'' 10 issued_server) = download_reply (profileData e)"
    using e v by (simp add: getEnrollmentProfile_def download_reply_def)
  have k: "keeps enrollmentCodes
     (andThen (logDeviceEvent (ProfileUuid (e_deviceId e)) ''profile_downloaded''
                 (Profile_downloaded_data ''CODE'')) (\<lambda>_. query (mark_downloaded ''CODE'')))"
    by (intro keeps_intros keeps_query keeps_codes_log) simp_all
  have 2: "enrollmentCodes (snd (getEnrollmentProfile ''CODE'' 10 issued_server)) ''CODE'' = Some e"
    using e v by (simp add: getEnrollmentProfile_def keepsD [OF k])
  have 3: "fst (getEnrollmentProfile ''CODE'' 20
      (snd (getEnrollmentProfile ''CODE'' 10 issued_server))) = download_reply (profileData e)"
    using 2 v by (simp add: getEnrollmentProfile_def download_reply_def)
  show ?thesis
    using 1 3 by (simp add: status_code_def download_reply_def)
qed

section \<open>Frame rules for the handlers\<close>

lemma ignores_rest_fields:
  "ignores_rest deviceSessions" "ignores_rest pendingCommands" "ignores_rest enrollmentCodes"
  "ignores_rest apn_sent" "ignores_rest (\<lambda>s. mdm_commands (db s))"
  by (simp_all add: ignores_rest_def)

lemma keeps_query_other:
  assumes "ignores_rest f" and "\<And>t. mdm_commands (snd (q t)) = mdm_commands t"
  shows "keeps f (query q)"
proof (rule keeps_query)
  fix s
  show 1: "f (s\<lparr>db_queries := Suc (db_queries s)\<rparr>) = f s"
    using assms(1) by (simp add: ignores_rest_def)
  have "f ((s\<lparr>db_queries := Suc (db_queries s)\<rparr>)\<lparr>db := snd (q (db s))\<rparr>)
      = f (s\<lparr>db_queries := Suc (db_queries s)\<rparr>)"
    using assms by (simp add: ignores_rest_def)
  with 1 show "f (s\<lparr>db_queries := Suc (db_queries s), db := snd (q (db s))\<rparr>) = f s"
    by simp
qed

lemma keeps_log: "ignores_rest f \<Longrightarrow> keeps f (logDeviceEvent d ty dat)"
  unfolding logDeviceEvent_def
  by (intro keeps_intros keeps_query_other) simp_all

lemma keeps_case_list:
  "keeps f a \<Longrightarrow> (\<And>x xs. keeps f (b x xs)) \<Longrightarrow> keeps f (case l of [] \<Rightarrow> a | x # xs \<Rightarrow> b x xs)"
  by (cases l) simp_all

lemma keeps_case_option:
  "keeps f a \<Longrightarrow> (\<And>x. keeps f (b x)) \<Longrightarrow> keeps f (case v of None \<Rightarrow> a | Some x \<Rightarrow> b x)"
  by (cases v) simp_all

lemmas keeps_rules = keeps_intros keeps_case_list keeps_case_option keeps_log

lemma keeps_processProfileList: "ignores_rest f \<Longrightarrow> keeps f (processProfileList d ps now)"
  unfolding processProfileList_def
  by (intro keeps_rules keeps_query_other)
    (simp_all add: mark_installed_def set_enrolled_def)

lemma keeps_processSecurityInfo: "ignores_rest f \<Longrightarrow> keeps f (processSecurityInfo d si now)"
  unfolding processSecurityInfo_def Let_def
  by (intro keeps_rules keeps_query_other) (simp_all add: update_supervised_def)

lemma keeps_insert_apps: "ignores_rest f \<Longrightarrow> keeps f (insert_apps d bl now as)"
  by (induction as) (auto intro!: keeps_rules keeps_query_other simp: upsert_app_def Let_def)

lemma keeps_processAppList: "ignores_rest f \<Longrightarrow> keeps f (processAppList d as now)"
  unfolding processAppList_def Let_def
  by (intro keeps_rules keeps_query_other keeps_insert_apps)
    (simp_all add: delete_inventory_def select_blocked_apps_def)

lemma keeps_processRestrictions: "ignores_rest f \<Longrightarrow> keeps f (processRestrictions d rs now)"
  unfolding processRestrictions_def Let_def
  by (intro keeps_rules keeps_query_other)
    (simp_all add: upsert_restrictions_def select_level_def Let_def)

lemma keeps_getPendingCommands: "ignores_rest f \<Longrightarrow> keeps f (getPendingCommands d)"
  unfolding keeps_def
proof
  fix s
  assume a: "ignores_rest f"
  have k: "keeps f (andThen (query (select_device d)) (\<lambda>device.
          case device of [] \<Rightarrow> ret []
          | x # _ \<Rightarrow> query (select_pending (dp_id x))))"
    by (intro keeps_rules keeps_query_other a)
      (simp_all add: select_device_def select_pending_def)
  show "f (snd (getPendingCommands d s)) = f s"
    using keepsD [OF k, of s] by (simp add: getPendingCommands_def Let_def ret_def)
qed

lemma keeps_getNextCommand: "ignores_rest f \<Longrightarrow> keeps f (getNextCommand d)"
  unfolding getNextCommand_def
  by (intro keeps_rules keeps_getPendingCommands)

lemma keeps_reconcile: "ignores_rest f \<Longrightarrow> keeps f (reconcile d r now)"
  unfolding reconcile_def
  by (intro keeps_rules keeps_processProfileList keeps_processSecurityInfo
      keeps_processAppList keeps_processRestrictions)

section \<open>Effects that never throw\<close>

lemma try_catch_total: "fst (try_catch m (\<lambda>e. ret ()) s) = Inr ()"
  by (simp add: try_catch_def ret_def split: prod.splits sum.splits)

lemma logDeviceEvent_total: "fst (logDeviceEvent d ty dat s) = Inr ()"
  by (simp add: logDeviceEvent_def try_catch_total)

lemma reconcile_total: "fst (reconcile d r now s) = Inr ()"
  by (simp add: reconcile_def processProfileList_def processSecurityInfo_def
      processAppList_def processRestrictions_def try_catch_total ret_def)

lemma processCommandResponse_total: "fst (processCommandResponse d r now s) = Inr ()"
  by (simp add: processCommandResponse_def Let_def try_catch_total ret_def split: option.splits)

lemma andThen_Inr: "fst (m s) = Inr x \<Longrightarrow> andThen m g s = g x (snd (m s))"
  by (cases "m s") (simp add: andThen_def)

lemma andThen_Inl: "fst (m s) = Inl e \<Longrightarrow> andThen m g s = (Inl e, snd (m s))"
  by (cases "m s") (simp add: andThen_def)

section \<open>Properties of the command exchange handler\<close>

lemma processCommandResponse_no_session:
  "deviceSessions s d = None \<Longrightarrow> processCommandResponse d r now s = (Inr (), s)"
  by (simp add: processCommandResponse_def ret_def)

lemma handleCommand_eq:
  "handleCommand d (Some r) now s =
    (command_reply (fst (getNextCommand d (snd (processCommandResponse d r now s)))),
     snd (getNextCommand d (snd (processCommandResponse d r now s))))"
proof -
  obtain x s2 where g: "getNextCommand d (snd (processCommandResponse d r now s)) = (x, s2)"
    by fastforce
  show ?thesis
    by (cases x)
      (simp_all add: handleCommand_def respond_def g command_reply_def ret_def
        andThen_Inr [OF processCommandResponse_total]
        andThen_def [of "getNextCommand d"] split: option.splits)
qed

lemma getNextCommand_memory:
  "pendingCommands s d = Some (c # cs) \<Longrightarrow> getNextCommand d s = (Inr (Some c), s)"
  by (simp add: getNextCommand_def getPendingCommands_def andThen_def ret_def or_empty_def)

lemma processCommandResponse_throws:
  assumes "deviceSessions s d = Some se" and "db_throws s (db_queries s)"
  shows "snd (processCommandResponse d r now s) = s\<lparr>db_queries := Suc (db_queries s)\<rparr>"
  using assms
  by (simp add: processCommandResponse_def Let_def try_catch_def andThen_def query_def ret_def)

lemma processCommandResponse_processed:
  assumes se: "deviceSessions s d = Some se" and ok: "\<not> db_throws s (db_queries s)"
  shows "pendingCommands (snd (processCommandResponse d r now s)) =
           (pendingCommands s)(d \<mapsto> filter (\<lambda>cmd. Some (CommandUUID cmd) \<noteq> rCommandUUID r)
              (or_empty (pendingCommands s d)))"
    and "mdm_commands (db (snd (processCommandResponse d r now s))) =
           mdm_commands (snd (update_command r now (db s)))"
proof -
  define s1 where "s1 = s\<lparr>db_queries := Suc (db_queries s), db := snd (update_command r now (db s))\<rparr>"
  define lg where "lg = logDeviceEvent (RecordId (s_deviceId se)) ''command_response''
     (Command_response_data (rCommandUUID r) (Status r) r)"
  define rc where "rc = (if Status r = ''Acknowledged'' then reconcile (s_deviceId se) r now
     else ret ())"
  define s3 where "s3 = snd (rc (snd (lg s1)))"
  have q: "query (update_command r now) s = (Inr (), s1)"
    using ok by (simp add: query_def Let_def s1_def split: prod.splits)
  have rc_total: "fst (rc x) = Inr ()" for x
    by (simp add: rc_def reconcile_total ret_def)
  have rc_keeps: "ignores_rest f \<Longrightarrow> keeps f rc" for f :: "server \<Rightarrow> 'x"
    by (simp add: rc_def keeps_reconcile keeps_ret)
  have lg_total: "fst (lg x) = Inr ()" for x
    by (simp add: lg_def logDeviceEvent_total)
  define F :: "server \<Rightarrow> server" where "F = (\<lambda>s. s\<lparr>pendingCommands := (pendingCommands s)(d \<mapsto>
         filter (\<lambda>cmd. Some (CommandUUID cmd) \<noteq> rCommandUUID r)
           (or_empty (pendingCommands s d)))\<rparr>)"
  have 3: "andThen rc (\<lambda>_. modify F) (snd (lg s1)) = (Inr (), F s3)"
    using andThen_Inr [of rc "snd (lg s1)" "()" "\<lambda>_. modify F"] rc_total
    by (simp add: modify_def s3_def)
  have 2: "andThen lg (\<lambda>_. andThen rc (\<lambda>_. modify F)) s1 = (Inr (), F s3)"
    using andThen_Inr [of lg s1 "()" "\<lambda>_. andThen rc (\<lambda>_. modify F)"] lg_total 3
    by simp
  have 1: "andThen (query (update_command r now))
      (\<lambda>_. andThen lg (\<lambda>_. andThen rc (\<lambda>_. modify F))) s = (Inr (), F s3)"
    using andThen_Inr [of "query (update_command r now)" s "()"
        "\<lambda>_. andThen lg (\<lambda>_. andThen rc (\<lambda>_. modify F))"] q 2
    by simp
  have fin: "snd (processCommandResponse d r now s) = F s3"
    using se 1
    by (simp add: processCommandResponse_def Let_def try_catch_def
        lg_def [symmetric] rc_def [symmetric] F_def [symmetric])
  have k: "ignores_rest f \<Longrightarrow> f s3 = f s1" for f :: "server \<Rightarrow> 'x"
    unfolding s3_def
    using keepsD [OF rc_keeps, of f "snd (lg s1)"] keepsD [OF keeps_log, of f _ _ _ s1]
    by (simp add: lg_def)
  have p: "pendingCommands s3 = pendingCommands s"
    using k [OF ignores_rest_fields(2)] by (simp add: s1_def)
  have c: "mdm_commands (db s3) = mdm_commands (snd (update_command r now (db s)))"
    using k [OF ignores_rest_fields(5)] by (simp add: s1_def)
  show "pendingCommands (snd (processCommandResponse d r now s)) =
           (pendingCommands s)(d \<mapsto> filter (\<lambda>cmd. Some (CommandUUID cmd) \<noteq> rCommandUUID r)
              (or_empty (pendingCommands s d)))"
    by (simp add: fin p F_def)
  show "mdm_commands (db (snd (processCommandResponse d r now s))) =
           mdm_commands (snd (update_command r now (db s)))"
    by (simp add: fin c F_def)
qed

text \<open>
  C10: when the session registry has no entry for the device, a command response changes
  nothing in the record store (no command record is marked, no event is written) and
  nothing in the pending queues; the reply is still the one for the next pending command,
  which is the head of the device's queue when that is not empty.
\<close>

theorem response_dropped_without_session:
  assumes "deviceSessions s d = None"
  shows "db (snd (handleCommand d (Some r) now s)) = db s \<and>
         pendingCommands (snd (handleCommand d (Some r) now s)) = pendingCommands s \<and>
         fst (handleCommand d (Some r) now s) = command_reply (fst (getNextCommand d s)) \<and>
         (\<forall>c cs. pendingCommands s d = Some (c # cs) \<longrightarrow>
            fst (handleCommand d (Some r) now s) =
              Reply 200 [(''Content-Type'', ''application/x-apple-aspen-mdm'')] (PlistCommand c))"
proof -
  note e = handleCommand_eq [of d r now s, unfolded processCommandResponse_no_session [OF assms],
      simplified]
  have "keeps db (getNextCommand d)"
    unfolding getNextCommand_def
    by (intro keeps_intros keeps_db_getPendingCommands)
  from keepsD [OF this, of s]
  have 1: "db (snd (handleCommand d (Some r) now s)) = db s"
    by (simp add: e)
  have 2: "pendingCommands (snd (handleCommand d (Some r) now s)) = pendingCommands s"
    using keepsD [OF keeps_getNextCommand [OF ignores_rest_fields(2)], of d s]
    by (simp add: e)
  have 3: "fst (handleCommand d (Some r) now s) = command_reply (fst (getNextCommand d s))"
    by (simp add: e)
  show ?thesis
    using 1 2 3 by (auto simp: getNextCommand_memory command_reply_def)
qed

theorem response_dropped_without_session_witness:
  "map mc_status (mdm_commands (db queued_server)) = [''pending''] \<and>
   db (snd (handleCommand ''D1'' (Some (acknowledge ''A'')) 5 queued_server)) = db queued_server \<and>
   fst (handleCommand ''D1'' (Some (acknowledge ''A'')) 5 queued_server) =
     Reply 200 [(''Content-Type'', ''application/x-apple-aspen-mdm'')]
       (PlistCommand (buildCommand ''A'' ''ProfileList'' []))"
proof -
  have s: "deviceSessions queued_server ''D1'' = None"
    and p: "pendingCommands queued_server ''D1'' = Some [buildCommand ''A'' ''ProfileList'' []]"
    and c: "map mc_status (mdm_commands (db queued_server)) = [''pending'']"
    by (simp_all add: queued_server_def sendCommand_def respond_def andThen_def query_def
        select_device_def insert_command_def fresh_server_def new_server_def
        one_device_tables_def empty_tables_def never_def modify_def wake_device_def ret_def
        or_empty_def Let_def)
  from response_dropped_without_session [OF s, of "acknowledge ''A''" 5] c
  show ?thesis by (simp add: getNextCommand_memory [OF p] command_reply_def)
qed

lemma handleCommand_state:
  assumes "ignores_rest f"
  shows "f (snd (handleCommand d (Some r) now s)) = f (snd (processCommandResponse d r now s))"
  using keepsD [OF keeps_getNextCommand [OF assms], of d "snd (processCommandResponse d r now s)"]
  by (simp add: handleCommand_eq)

lemma handleCommand_status:
  "status_code (fst (handleCommand d (Some r) now s)) \<in> {200, 500}"
  by (simp add: handleCommand_eq command_reply_def status_code_def
      split: sum.splits option.splits)

lemma update_command_unmatched:
  assumes "\<forall>row \<in> set (mdm_commands t). Some (mc_command_uuid row) \<noteq> rCommandUUID r"
  shows "mdm_commands (snd (update_command r now t)) = mdm_commands t"
  using assms by (simp add: update_command_def map_idI)

lemma processCommandResponse_cases:
  "(deviceSessions s d = None \<and> snd (processCommandResponse d r now s) = s) \<or>
   (deviceSessions s d \<noteq> None \<and> db_throws s (db_queries s) \<and>
      snd (processCommandResponse d r now s) = s\<lparr>db_queries := Suc (db_queries s)\<rparr>) \<or>
   (deviceSessions s d \<noteq> None \<and> \<not> db_throws s (db_queries s) \<and>
      pendingCommands (snd (processCommandResponse d r now s)) =
        (pendingCommands s)(d \<mapsto> filter (\<lambda>cmd. Some (CommandUUID cmd) \<noteq> rCommandUUID r)
           (or_empty (pendingCommands s d))) \<and>
      mdm_commands (db (snd (processCommandResponse d r now s))) =
        mdm_commands (snd (update_command r now (db s))))"
proof (cases "deviceSessions s d")
  case None
  then show ?thesis by (simp add: processCommandResponse_no_session)
next
  case (Some se)
  then show ?thesis
    using processCommandResponse_throws [OF Some, of r now]
      processCommandResponse_processed [OF Some, of r now]
    by (cases "db_throws s (db_queries s)") simp_all
qed

text \<open>
  C3, as the code has it: the command endpoint has no unknown-command outcome; it replies
  200, or 500 when the look-up of the next command fails. A response whose identifier
  matches no command of the device's queue and no command record leaves the queue and
  the command records as they were. When the device has a session and the update
  statement does not throw, the response is processed whether or not its identifier is
  at the head: every record with that identifier is marked, and every queued command
  with that identifier is removed.
\<close>

theorem response_processed_regardless_of_head:
  "status_code (fst (handleCommand d (Some r) now s)) \<in> {200, 500} \<and>
   ((\<forall>c \<in> set (or_empty (pendingCommands s d)). Some (CommandUUID c) \<noteq> rCommandUUID r) \<and>
    (\<forall>row \<in> set (mdm_commands (db s)). Some (mc_command_uuid row) \<noteq> rCommandUUID r) \<longrightarrow>
      or_empty (pendingCommands (snd (handleCommand d (Some r) now s)) d) =
        or_empty (pendingCommands s d) \<and>
      mdm_commands (db (snd (handleCommand d (Some r) now s))) = mdm_commands (db s)) \<and>
   (deviceSessions s d \<noteq> None \<and> \<not> db_throws s (db_queries s) \<longrightarrow>
      or_empty (pendingCommands (snd (handleCommand d (Some r) now s)) d) =
        filter (\<lambda>c. Some (CommandUUID c) \<noteq> rCommandUUID r) (or_empty (pendingCommands s d)) \<and>
      mdm_commands (db (snd (handleCommand d (Some r) now s))) =
        mdm_commands (snd (update_command r now (db s))))"
proof -
  have p: "pendingCommands (snd (handleCommand d (Some r) now s)) =
      pendingCommands (snd (processCommandResponse d r now s))"
    by (rule handleCommand_state [OF ignores_rest_fields(2)])
  have c: "mdm_commands (db (snd (handleCommand d (Some r) now s))) =
      mdm_commands (db (snd (processCommandResponse d r now s)))"
    by (rule handleCommand_state [OF ignores_rest_fields(5)])
  have f: "(\<forall>c \<in> set q. Some (CommandUUID c) \<noteq> rCommandUUID r) \<Longrightarrow>
      filter (\<lambda>c. Some (CommandUUID c) \<noteq> rCommandUUID r) q = q" for q
    by (induction q) simp_all
  show ?thesis
    using processCommandResponse_cases [of s d r now] handleCommand_status [of d r now s]
    by (auto simp: p c f update_command_unmatched or_empty_def)
qed

lemmas run_defs = handleCheckIn_def handleAuthenticate_def sendCommand_def respond_def
  andThen_def query_def try_catch_def logDeviceEvent_def modify_def ret_def throw_def
  select_device_def select_session_def insert_session_def insert_command_def
  wake_device_def fresh_server_def new_server_def one_device_tables_def empty_tables_def
  never_def checkin_message_def buildCommand_def or_empty_def Let_def

lemma two_queued_facts:
  "deviceSessions two_queued_server ''D1'' \<noteq> None"
  "\<not> db_throws two_queued_server (db_queries two_queued_server)"
  "pendingCommands two_queued_server ''D1'' =
     Some [buildCommand ''A'' ''ProfileList'' [], buildCommand ''B'' ''SecurityInfo'' []]"
  "map mc_command_uuid (mdm_commands (db two_queued_server)) = [''A'', ''B'']"
  "map mc_status (mdm_commands (db two_queued_server)) = [''pending'', ''pending'']"
  by (simp_all add: two_queued_server_def authenticated_server_def run_defs)

theorem response_processed_regardless_of_head_witness:
  "map CommandUUID (or_empty (pendingCommands
     (snd (handleCommand ''D1'' (Some (acknowledge ''Z'')) 9 two_queued_server)) ''D1''))
     = [''A'', ''B''] \<and>
   map mc_status (mdm_commands (db
     (snd (handleCommand ''D1'' (Some (acknowledge ''Z'')) 9 two_queued_server))))
     = [''pending'', ''pending'']"
proof -
  have 1: "\<forall>c \<in> set (or_empty (pendingCommands two_queued_server ''D1'')).
      Some (CommandUUID c) \<noteq> rCommandUUID (acknowledge ''Z'')"
    by (simp add: two_queued_facts(3) or_empty_def buildCommand_def acknowledge_def)
  have "\<forall>u \<in> set (map mc_command_uuid (mdm_commands (db two_queued_server))).
      Some u \<noteq> rCommandUUID (acknowledge ''Z'')"
    by (simp add: two_queued_facts(4) acknowledge_def)
  then have 2: "\<forall>row \<in> set (mdm_commands (db two_queued_server)).
      Some (mc_command_uuid row) \<noteq> rCommandUUID (acknowledge ''Z'')"
    by simp
  from response_processed_regardless_of_head
    [of "''D1''" "acknowledge ''Z''" 9 two_queued_server] 1 2
  show ?thesis
    by (simp add: two_queued_facts or_empty_def buildCommand_def)
qed

text \<open>
  C3 as stated fails: the queue of the device is A, B and the response names B, which is
  not the head. The handler replies 200, B leaves the queue and its record is marked
  completed.
\<close>

theorem response_for_second_command_processed:
  "map CommandUUID (or_empty (pendingCommands two_queued_server ''D1'')) = [''A'', ''B''] \<and>
   status_code (fst (handleCommand ''D1'' (Some (acknowledge ''B'')) 9 two_queued_server))
     = 200 \<and>
   map CommandUUID (or_empty (pendingCommands
     (snd (handleCommand ''D1'' (Some (acknowledge ''B'')) 9 two_queued_server)) ''D1''))
     = [''A''] \<and>
   map mc_status (mdm_commands (db
     (snd (handleCommand ''D1'' (Some (acknowledge ''B'')) 9 two_queued_server))))
     = [''pending'', ''completed'']"
proof -
  obtain se where se: "deviceSessions two_queued_server ''D1'' = Some se"
    using two_queued_facts(1) by blast
  note pr = processCommandResponse_processed [OF se two_queued_facts(2), of "acknowledge ''B''" 9]
  have p: "pendingCommands (snd (processCommandResponse ''D1'' (acknowledge ''B'') 9
      two_queued_server)) ''D1'' = Some [buildCommand ''A'' ''ProfileList'' []]"
    by (subst pr(1)) (simp add: two_queued_facts(3) or_empty_def buildCommand_def acknowledge_def)
  have "map (\<lambda>r. (mc_command_uuid r, mc_status r)) (mdm_commands (db two_queued_server)) =
      [(''A'', ''pending''), (''B'', ''pending'')]"
    by (simp add: two_queued_server_def authenticated_server_def run_defs)
  then have c: "map mc_status (mdm_commands (snd (update_command (acknowledge ''B'') 9
      (db two_queued_server)))) = [''pending'', ''completed'']"
    by (auto simp: update_command_def acknowledge_def)
  have 1: "status_code (fst (handleCommand ''D1'' (Some (acknowledge ''B'')) 9
      two_queued_server)) = 200"
    by (simp add: handleCommand_eq getNextCommand_memory [OF p] command_reply_def
        status_code_def)
  have 2: "map CommandUUID (or_empty (pendingCommands
     (snd (handleCommand ''D1'' (Some (acknowledge ''B'')) 9 two_queued_server)) ''D1''))
     = [''A'']"
    by (simp add: handleCommand_state [OF ignores_rest_fields(2)] p or_empty_def
        buildCommand_def)
  have 3: "map mc_status (mdm_commands (db
     (snd (handleCommand ''D1'' (Some (acknowledge ''B'')) 9 two_queued_server))))
     = [''pending'', ''completed'']"
    using handleCommand_state [OF ignores_rest_fields(5), of "''D1''" "acknowledge ''B''" 9
        two_queued_server]
    by (simp add: pr(2) c)
  show ?thesis
    using 1 2 3 by (simp add: two_queued_facts(3) or_empty_def buildCommand_def)
qed

section \<open>Properties of the wake dispatcher\<close>

lemma keeps_modify: "(\<And>s. f (F s) = f s) \<Longrightarrow> keeps f (modify F)"
  by (simp add: keeps_def modify_def)

lemma keeps_sent_query: "keeps apn_sent (query q)"
  by (rule keeps_query) simp_all

lemmas sent_rules = keeps_rules keeps_sent_query keeps_modify ignores_rest_fields(4)

lemma sent_respond: "keeps apn_sent m \<Longrightarrow> apn_sent (snd (respond m h s)) = apn_sent s"
  by (simp add: snd_respond keepsD)

lemma sent_handleAuthenticate: "apn_sent (snd (handleAuthenticate d m now s)) = apn_sent s"
  unfolding handleAuthenticate_def
  by (rule sent_respond) (intro sent_rules; simp)

lemma sent_handleCheckOut: "apn_sent (snd (handleCheckOut d m s)) = apn_sent s"
  unfolding handleCheckOut_def
  by (cases "deviceSessions s d") (simp_all add: sent_respond sent_rules)

lemma keeps_sent_processCommandResponse: "keeps apn_sent (processCommandResponse d r now)"
  unfolding keeps_def
proof
  fix s
  show "apn_sent (snd (processCommandResponse d r now s)) = apn_sent s"
    using processCommandResponse_cases [of s d r now]
  proof (cases "deviceSessions s d")
    case None
    then show ?thesis by (simp add: processCommandResponse_no_session)
  next
    case (Some se)
    have "keeps apn_sent (try_catch
              (andThen (query (update_command r now)) (\<lambda>_.
               andThen (logDeviceEvent (RecordId (s_deviceId se)) ''command_response''
                          (Command_response_data (rCommandUUID r) (Status r) r)) (\<lambda>_.
               andThen (if Status r = ''Acknowledged''
                        then reconcile (s_deviceId se) r now
                        else ret ()) (\<lambda>_.
               modify (\<lambda>s. s\<lparr>pendingCommands := (pendingCommands s)(d \<mapsto>
                 filter (\<lambda>cmd. Some (CommandUUID cmd) \<noteq> rCommandUUID r)
                   (or_empty (pendingCommands s d)))\<rparr>)))))
              (\<lambda>error. ret ()))"
      by (intro sent_rules keeps_reconcile; simp)
    from keepsD [OF this, of s] show ?thesis
      using Some by (simp add: processCommandResponse_def Let_def)
  qed
qed

lemma sent_handleCommand: "apn_sent (snd (handleCommand d body now s)) = apn_sent s"
proof (cases body)
  case None
  then show ?thesis by (simp add: handleCommand_def respond_def throw_def)
next
  case (Some r)
  then show ?thesis
    by (simp add: handleCommand_state [OF ignores_rest_fields(4)]
        keepsD [OF keeps_sent_processCommandResponse])
qed

lemma sent_handleEnrollment: "apn_sent (snd (handleEnrollment d u now s)) = apn_sent s"
  unfolding handleEnrollment_def
  by (rule sent_respond) (intro sent_rules; simp)

lemma sent_getEnrollmentProfile: "apn_sent (snd (getEnrollmentProfile code now s)) = apn_sent s"
proof -
  have "keeps apn_sent (andThen (logDeviceEvent dv ty dat) (\<lambda>_. query (mark_downloaded code)))"
    for dv ty dat
    by (intro sent_rules; simp)
  from keepsD [OF this] show ?thesis
    by (simp add: getEnrollmentProfile_def split: option.splits)
qed

lemma keeps_sent_compileBlockedDomains: "keeps apn_sent (compileBlockedDomains st)"
  unfolding compileBlockedDomains_def Let_def
  by (intro sent_rules; simp)

lemma keeps_sent_buildSupervisionProfile: "keeps apn_sent (buildSupervisionProfile gen opts)"
  unfolding keeps_def
proof
  fix s
  show "apn_sent (snd (buildSupervisionProfile gen opts s)) = apn_sent s"
    unfolding buildSupervisionProfile_def Let_def buildContentFilterPayload_def
    by (rule keepsD) (intro sent_rules keeps_sent_compileBlockedDomains; simp)
qed

lemma sent_generateSupervisionProfile:
  "apn_sent (snd (generateSupervisionProfile L d u st l pu code gen now s)) = apn_sent s"
proof -
  have "keeps apn_sent (\<lambda>s. ret (signProfile L (cfg s) profile) s)" for profile
    by (simp add: keeps_def ret_def)
  then show ?thesis
    unfolding generateSupervisionProfile_def
    by (intro sent_respond sent_rules keeps_sent_buildSupervisionProfile; simp)
qed

lemma sent_getDeviceStatus: "apn_sent (snd (getDeviceStatus d s)) = apn_sent s"
  unfolding getDeviceStatus_def Let_def
  by (rule sent_respond) (intro sent_rules; simp add: keeps_ret split: prod.splits)

lemma woken_refl: "apn_sent s' = apn_sent s \<Longrightarrow> woken_with d s s'"
  by (simp add: woken_with_def)

lemma woken_cong: "apn_sent t = apn_sent s \<Longrightarrow> woken_with d t s' \<Longrightarrow> woken_with d s s'"
  by (auto simp: woken_with_def split: option.splits)

lemma woken_andThen:
  assumes m: "keeps apn_sent m" "keeps deviceSessions m"
    and g: "\<And>x t. deviceSessions t = deviceSessions s \<Longrightarrow> woken_with d t (snd (g x t))"
  shows "woken_with d s (snd (andThen m g s))"
proof (cases "fst (m s)")
  case (Inl e)
  then show ?thesis
    by (simp add: andThen_Inl woken_refl keepsD [OF m(1)])
next
  case (Inr x)
  have "woken_with d (snd (m s)) (snd (g x (snd (m s))))"
    by (rule g) (simp add: keepsD [OF m(2)])
  then show ?thesis
    using Inr by (simp add: andThen_Inr woken_cong [OF keepsD [OF m(1)]])
qed

lemma woken_sendPushNotification:
  assumes "deviceSessions t d = Some se" and "s_pushToken se \<noteq> None"
  shows "woken_with d t (snd (andThen (sendPushNotification d (s_pushToken se) (s_pushMagic se))
           (\<lambda>_. ret x) t))"
  using assms
  by (simp add: woken_with_def sendPushNotification_def andThen_def ret_def modify_def)

lemma woken_wake_device: "woken_with d t (snd (andThen (wake_device d) (\<lambda>_. ret x) t))"
proof (cases "deviceSessions t d")
  case None
  then show ?thesis by (simp add: wake_device_def andThen_def ret_def woken_refl)
next
  case (Some se)
  show ?thesis
  proof (cases "s_pushToken se = None")
    case True
    then show ?thesis using Some by (simp add: wake_device_def andThen_def ret_def woken_refl)
  next
    case False
    have "andThen (wake_device d) (\<lambda>_. ret x) t =
        andThen (sendPushNotification d (s_pushToken se) (s_pushMagic se)) (\<lambda>_. ret x) t"
      using Some False by (simp add: wake_device_def andThen_def)
    then show ?thesis
      using woken_sendPushNotification [OF Some False, of x] by simp
  qed
qed

lemma keeps_sessions_query: "keeps deviceSessions (query q)"
  by (rule keeps_query) simp_all

lemma keeps_insert_commands:
  "(\<And>q :: tables \<Rightarrow> unit \<times> tables. keeps f (query q)) \<Longrightarrow>
   keeps f (insert_commands did now cs)"
  by (induction cs) (auto intro!: keeps_intros)

lemma woken_sendCommand: "woken_with d s (snd (sendCommand d ty ps u now s))"
  unfolding sendCommand_def Let_def snd_respond
  by (intro woken_andThen keeps_sent_query keeps_sessions_query keeps_modify)
    (auto split: list.split simp: ret_def woken_refl
      intro!: woken_andThen keeps_sent_query keeps_sessions_query keeps_modify
        woken_wake_device)

lemma woken_verifyDevice: "woken_with d s (snd (verifyDevice d gen now s))"
  unfolding verifyDevice_def Let_def snd_respond
  by (intro woken_andThen keeps_sent_query keeps_sessions_query keeps_modify)
    (auto split: list.split simp: ret_def woken_refl simp del: insert_commands.simps
      intro!: woken_andThen keeps_sent_query keeps_sessions_query keeps_modify
        woken_wake_device keeps_insert_commands)

lemma woken_handleTokenUpdate: "woken_with d s (snd (handleTokenUpdate d m now s))"
proof (cases "deviceSessions s d")
  case None
  then show ?thesis by (simp add: handleTokenUpdate_def woken_refl)
next
  case (Some session0)
  define session where "session = session0\<lparr>s_pushToken := Token m, s_pushMagic := PushMagic m,
     s_unlockToken := UnlockToken m\<rparr>"
  define s1 where "s1 = s\<lparr>deviceSessions := (deviceSessions s)(d \<mapsto> session)\<rparr>"
  define push where "push = (\<lambda>commands :: command list.
     andThen (if length commands > 0
              then sendPushNotification d (s_pushToken session) (s_pushMagic session)
              else ret ()) (\<lambda>_. ret (Reply 200 [] NoBody)))"
  define rest where "rest =
     andThen (case Token m of None \<Rightarrow> throw TypeError
              | Some tok \<Rightarrow> query (update_tokens m now (s_deviceId session))) (\<lambda>_.
     andThen (getPendingCommands d) push)"
  have run: "snd (handleTokenUpdate d m now s) = snd (rest s1)"
    using Some unfolding rest_def push_def s1_def session_def
    by (simp add: handleTokenUpdate_def Let_def snd_respond andThen_modify)
  have s1: "apn_sent s1 = apn_sent s" "deviceSessions s1 d = Some session"
    by (simp_all add: s1_def)
  have "woken_with d s1 (snd (rest s1))"
  proof (cases "Token m")
    case None
    then show ?thesis
      by (simp add: rest_def andThen_def throw_def woken_refl)
  next
    case (Some tok)
    have tok: "s_pushToken session \<noteq> None"
      using Some by (simp add: session_def)
    have p: "woken_with d t (snd (push commands t))" if "deviceSessions t d = Some session"
      for t commands
      using woken_sendPushNotification [OF that tok, of "Reply 200 [] NoBody"]
      by (simp add: push_def woken_refl andThen_def ret_def)
    have g: "woken_with d t (snd (andThen (getPendingCommands d) push t))"
      if "deviceSessions t d = Some session" for t
      by (rule woken_andThen)
        (simp_all add: keeps_getPendingCommands ignores_rest_fields p that)
    show ?thesis
      unfolding rest_def Some option.case
      by (rule woken_andThen) (simp_all add: keeps_sent_query keeps_sessions_query g s1)
  qed
  then show ?thesis
    using run woken_cong [OF s1(1)] by simp
qed

text \<open>
  C4, as the code has it: a request that is neither a TokenUpdate check-in nor one of the
  two enqueueing requests (send command, verify device) never calls the push provider,
  and neither does a shutdown. Each of those three calls it at most once, with the push
  token and push magic held in the session entry of the device: the ones of the latest
  TokenUpdate.
\<close>

theorem push_sent_by_three_operations:
  "(\<not> may_wake req \<longrightarrow> apn_sent (snd (route L now key req s)) = apn_sent s) \<and>
   (may_wake req \<longrightarrow> woken_with (device_of req) s (snd (route L now key req s))) \<and>
   apn_sent (shutdown s) = apn_sent s"
proof -
  have 1: "\<not> may_wake req \<Longrightarrow> apn_sent (snd (dispatch L now req s)) = apn_sent s"
    by (cases req)
      (auto simp: may_wake_def dispatch_def handleCheckIn_def sent_handleAuthenticate
        sent_handleCheckOut sent_handleCommand sent_handleEnrollment
        sent_getEnrollmentProfile sent_generateSupervisionProfile sent_getDeviceStatus
        split: option.splits)
  have 2: "may_wake req \<Longrightarrow> woken_with (device_of req) s (snd (dispatch L now req s))"
    by (cases req)
      (auto simp: may_wake_def device_of_def dispatch_def handleCheckIn_def
        woken_handleTokenUpdate woken_sendCommand woken_verifyDevice
        split: option.splits)
  show ?thesis
    using 1 2 by (simp add: route_def shutdown_def woken_refl)
qed

lemma woken_server_facts:
  "apn_sent woken_server = []"
  "apnProvider woken_server"
  "cfg woken_server = example_config"
  "\<not> db_throws woken_server n"
  "map dp_profile_uuid (device_profiles (db woken_server)) = [''D1'']"
  "map_option s_pushToken (deviceSessions woken_server ''D1'') = Some (Some ''token-1'')"
  "map_option s_pushMagic (deviceSessions woken_server ''D1'') = Some (Some ''magic-1'')"
  by (simp_all add: woken_server_def authenticated_server_def run_defs handleTokenUpdate_def
      update_tokens_def getPendingCommands_def select_pending_def)

theorem push_sent_by_three_operations_witness:
  "apn_sent (snd (route example_libs 3 (Some ''k'') (GetDeviceStatus ''D1'') woken_server)) = [] \<and>
   woken_with ''D1'' woken_server (snd (route example_libs 3 (Some ''k'')
     (PostDeviceCommand ''D1'' ''DeviceLock'' None ''A'') woken_server))"
  using push_sent_by_three_operations [of "GetDeviceStatus ''D1''" example_libs 3 "Some ''k''"
      woken_server]
    push_sent_by_three_operations [of "PostDeviceCommand ''D1'' ''DeviceLock'' None ''A''"
      example_libs 3 "Some ''k''" woken_server]
  by (simp add: may_wake_def device_of_def woken_server_facts)

text \<open>
  C4 as stated fails: after Authenticate and TokenUpdate of a device, with nothing
  pending, no push has been sent; the send-command request that follows calls the push
  provider with the stored token.
\<close>

theorem send_command_sends_push:
  "apn_sent woken_server = [] \<and>
   apn_sent (snd (route example_libs 3 (Some ''k'')
     (PostDeviceCommand ''D1'' ''DeviceLock'' None ''A'') woken_server)) =
     [(\<lparr>topic = ''com.altriirecovery.mdm'', pushType = ''mdm'', priority = 5,
         mdm = Some ''magic-1''\<rparr>, Some ''token-1'')]"
proof -
  obtain se where se: "deviceSessions woken_server ''D1'' = Some se"
    and t: "s_pushToken se = Some ''token-1''" and m: "s_pushMagic se = Some ''magic-1''"
    using woken_server_facts(6,7) by auto
  obtain dr where dr: "device_profiles (db woken_server) = [dr]"
    and u: "dp_profile_uuid dr = ''D1''"
    using woken_server_facts(5) by auto
  show ?thesis
    by (simp add: woken_server_facts route_def dispatch_def example_config_def sendCommand_def
        respond_def andThen_def query_def select_device_def dr u insert_command_def
        modify_def wake_device_def se t m sendPushNotification_def topic_of_def ret_def
        Let_def split: prod.splits)
qed

section \<open>Properties of the command queue\<close>

lemma wake_device_total: "fst (wake_device d s) = Inr ()"
  by (simp add: wake_device_def sendPushNotification_def ret_def modify_def split: option.splits)

lemma keeps_pending_wake_device: "keeps pendingCommands (wake_device d)"
  by (simp add: keeps_def wake_device_def sendPushNotification_def ret_def modify_def
      split: option.splits)

lemma wake_then_ret:
  "andThen (wake_device d) (\<lambda>_. ret r) x = (Inr r, snd (wake_device d x))"
  by (simp add: andThen_Inr [OF wake_device_total] ret_def)

lemma sendCommand_pending:
  "pendingCommands (snd (sendCommand d ty ps u now s)) =
     (if status_code (fst (sendCommand d ty ps u now s)) = 200
      then (pendingCommands s)(d \<mapsto> or_empty (pendingCommands s d) @
             [buildCommand u ty (or_empty ps)])
      else pendingCommands s)"
  unfolding sendCommand_def Let_def wake_then_ret
  by (auto simp: respond_def andThen_def query_def modify_def ret_def status_code_def
      keepsD [OF keeps_pending_wake_device] Let_def
      split: prod.splits sum.splits list.splits if_splits)

lemma keeps_pending_query: "keeps pendingCommands (query q)"
  by (rule keeps_query) simp_all

lemma verifyDevice_pending:
  "pendingCommands (snd (verifyDevice d gen now s)) =
     (if status_code (fst (verifyDevice d gen now s)) = 200
      then (pendingCommands s)(d \<mapsto> or_empty (pendingCommands s d) @ verify_commands gen)
      else pendingCommands s)"
proof -
  define cs where "cs = verify_commands gen"
  define tail where "tail = (\<lambda>dr :: device_profiles_row.
     andThen (insert_commands (dp_id dr) now cs) (\<lambda>_.
     andThen (modify (\<lambda>s. s\<lparr>pendingCommands := (pendingCommands s)(d \<mapsto>
                or_empty (pendingCommands s d) @ cs)\<rparr>)) (\<lambda>_.
     andThen (wake_device d) (\<lambda>_.
     ret (Reply 200 [] (Json [(''verificationInitiated'', PBool True),
                              (''commandsSent'', PNum (int (length cs))),
                              (''expectedResponseTime'', PStr ''30 seconds'')]))))))"
  have k: "keeps pendingCommands (insert_commands did now cs)" for did
    by (rule keeps_insert_commands) (rule keeps_pending_query)
  have t: "(\<exists>e. fst (tail dr x) = Inl e \<and> pendingCommands (snd (tail dr x)) = pendingCommands x) \<or>
      (\<exists>h b. fst (tail dr x) = Inr (Reply 200 h b) \<and>
         pendingCommands (snd (tail dr x)) =
           (pendingCommands x)(d \<mapsto> or_empty (pendingCommands x d) @ cs))" for dr x
  proof (cases "fst (insert_commands (dp_id dr) now cs x)")
    case (Inl e)
    then show ?thesis
      by (simp add: tail_def andThen_Inl keepsD [OF k])
  next
    case (Inr u)
    then show ?thesis
      using keepsD [OF k, of "dp_id dr" x]
      by (simp add: tail_def andThen_Inr andThen_modify wake_then_ret
          keepsD [OF keeps_pending_wake_device])
  qed
  have v: "verifyDevice d gen now s =
      respond (andThen (query (select_device d)) (\<lambda>device. case device of
          [] \<Rightarrow> ret (Reply 404 [] (Json [(''error'', PStr ''Device not found'')]))
        | dr # _ \<Rightarrow> tail dr))
        (\<lambda>error. Reply 500 [] (Json [(''error'', PStr ''Failed to verify device'')])) s"
    unfolding verifyDevice_def tail_def cs_def verify_commands_def Let_def ..
  show ?thesis
  proof (cases "fst (query (select_device d) s)")
    case (Inl e)
    then show ?thesis
      using keepsD [OF keeps_pending_query, of "select_device d" s]
      by (cases "query (select_device d) s")
        (simp add: v respond_def andThen_def status_code_def)
  next
    case (Inr device)
    then obtain s1 where q: "query (select_device d) s = (Inr device, s1)"
      and p: "pendingCommands s1 = pendingCommands s"
      using keepsD [OF keeps_pending_query, of "select_device d" s]
      by (cases "query (select_device d) s") simp
    show ?thesis
    proof (cases device)
      case Nil
      then show ?thesis
        by (simp add: v respond_def andThen_def q ret_def p status_code_def)
    next
      case (Cons dr rest)
      from t [of dr s1] show ?thesis
        by (cases "tail dr s1")
          (auto simp: v respond_def andThen_def q Cons p status_code_def cs_def)
    qed
  qed
qed

lemma enqueue_all_pending:
  "enqueue_all es s = (accepted, s') \<Longrightarrow>
   or_empty (pendingCommands s' d) = or_empty (pendingCommands s d) @ commands_for d accepted"
proof (induction es arbitrary: s accepted)
  case Nil
  then show ?case by (simp add: commands_for_def)
next
  case (Cons e es)
  show ?case
  proof (cases e)
    case (Send d0 ty ps u now)
    obtain r s1 where s1: "sendCommand d0 ty ps u now s = (r, s1)"
      by fastforce
    obtain acc s2 where s2: "enqueue_all es s1 = (acc, s2)"
      by fastforce
    have 1: "or_empty (pendingCommands s1 d) = or_empty (pendingCommands s d) @
        (if status_code r = 200 \<and> d0 = d then [buildCommand u ty (or_empty ps)] else [])"
      using sendCommand_pending [of d0 ty ps u now s] s1 by (auto simp: or_empty_def)
    from Cons.prems have 2: "s2 = s'"
      and 3: "accepted = (if status_code r = 200 then [(d0, buildCommand u ty (or_empty ps))]
          else []) @ acc"
      by (simp_all add: Send s1 s2)
    from Cons.IH [OF s2 [unfolded 2]] show ?thesis
      by (auto simp: 1 3 commands_for_def)
  next
    case (Verify d0 gen now)
    obtain r s1 where s1: "verifyDevice d0 gen now s = (r, s1)"
      by fastforce
    obtain acc s2 where s2: "enqueue_all es s1 = (acc, s2)"
      by fastforce
    have 1: "or_empty (pendingCommands s1 d) = or_empty (pendingCommands s d) @
        (if status_code r = 200 \<and> d0 = d then verify_commands gen else [])"
      using verifyDevice_pending [of d0 gen now s] s1 by (auto simp: or_empty_def)
    from Cons.prems have 2: "s2 = s'"
      and 3: "accepted = (if status_code r = 200 then map (Pair d0) (verify_commands gen)
          else []) @ acc"
      by (simp_all add: Verify s1 s2)
    have 4: "map snd (filter (\<lambda>e. fst e = d) (map (Pair d0) cs)) = (if d0 = d then cs else [])"
      for cs :: "command list"
      by (induction cs) auto
    from Cons.IH [OF s2 [unfolded 2]] show ?thesis
      by (auto simp: 1 3 4 commands_for_def comp_def)
  qed
qed

lemma processCommandResponse_queue:
  "or_empty (pendingCommands (snd (processCommandResponse d' r now s)) d) =
     or_empty (pendingCommands s d) \<or>
   (d' = d \<and> or_empty (pendingCommands (snd (processCommandResponse d' r now s)) d) =
     filter (\<lambda>c. Some (CommandUUID c) \<noteq> rCommandUUID r) (or_empty (pendingCommands s d)))"
  using processCommandResponse_cases [of s d' r now]
  by (cases "d' = d") (auto simp: or_empty_def)

text \<open>
  The in-memory queue taken alone keeps the order of enqueueing: its head is the next
  command, the enqueueing requests append to the queue of their own device only, in the
  order they are accepted, and a command response only removes commands.
\<close>

lemma queue_order_in_memory:
  "(\<forall>c cs. pendingCommands s d = Some (c # cs) \<longrightarrow> getNextCommand d s = (Inr (Some c), s)) \<and>
   (\<forall>es accepted s'. enqueue_all es s = (accepted, s') \<longrightarrow>
      or_empty (pendingCommands s' d) = or_empty (pendingCommands s d) @ commands_for d accepted) \<and>
   (or_empty (pendingCommands (snd (processCommandResponse d' r now s)) d) =
      or_empty (pendingCommands s d) \<or>
    (d' = d \<and> or_empty (pendingCommands (snd (processCommandResponse d' r now s)) d) =
      filter (\<lambda>c. Some (CommandUUID c) \<noteq> rCommandUUID r) (or_empty (pendingCommands s d))))"
  using getNextCommand_memory [of s d] enqueue_all_pending [of _ s _ _ d]
    processCommandResponse_queue [of d' r now s d]
  by blast

lemmas queue_defs = sendCommand_def respond_def andThen_def query_def modify_def ret_def
  select_device_def insert_command_def wake_device_def fresh_server_def new_server_def
  one_device_tables_def empty_tables_def never_def buildCommand_def or_empty_def Let_def
  status_code_def shutdown_def

text \<open>
  C5 says that the next command of a device is always the oldest one enqueued for it.
  Both look-ups aim at that: the in-memory queue is appended to and read at its head, and
  the store is read in the order of creation. The code breaks it when the maps have been
  cleared: B is enqueued for the device, the maps are cleared, and C is enqueued for the
  same device. Both are pending and neither has been returned, the store lists B before
  C, and the next command is C, because the non-empty in-memory queue is returned without
  the older commands of the store. With the maps cleared once more, the same store gives
  B.
\<close>

theorem later_command_returned_first:
  "fst (select_pending 1 (db overtaken_server)) =
     [buildCommand ''B'' ''ProfileList'' [], buildCommand ''C'' ''SecurityInfo'' []] \<and>
   fst (getNextCommand ''D1'' overtaken_server) =
     Inr (Some (buildCommand ''C'' ''SecurityInfo'' [])) \<and>
   fst (getNextCommand ''D1'' (shutdown overtaken_server)) =
     Inr (Some (buildCommand ''B'' ''ProfileList'' []))"
proof -
  have q: "pendingCommands overtaken_server ''D1'' =
      Some [buildCommand ''C'' ''SecurityInfo'' []]"
    by (simp add: overtaken_server_def restarted_server_def queue_defs)
  have p: "fst (select_pending 1 (db overtaken_server)) =
     [buildCommand ''B'' ''ProfileList'' [], buildCommand ''C'' ''SecurityInfo'' []]"
    by (simp add: overtaken_server_def restarted_server_def queue_defs select_pending_def)
  have r: "fst (getNextCommand ''D1'' (shutdown overtaken_server)) =
     Inr (Some (buildCommand ''B'' ''ProfileList'' []))"
    by (simp add: overtaken_server_def restarted_server_def queue_defs select_pending_def
        getNextCommand_def getPendingCommands_def)
  show ?thesis
    by (simp add: p r getNextCommand_memory [OF q])
qed

end
